theory Spec2Isabelle
  imports Main
begin

section \<open>Python strings and generators\<close>

text \<open>
  The generator helpers of \<^verbatim>\<open>clif/python/gen.py\<close> are Python generator functions that yield
  lines of C++ text. A Python \<^verbatim>\<open>str\<close> is a \<open>string\<close>; the string methods the source uses are
  defined here with Python's meaning.
\<close>

definition startswith :: "string \<Rightarrow> string \<Rightarrow> bool" where
  "startswith s pre = (take (length pre) s = pre)"

definition endswith :: "string \<Rightarrow> string \<Rightarrow> bool" where
  "endswith s suf = (length suf \<le> length s \<and> drop (length s - length suf) s = suf)"

definition rstrip :: "string \<Rightarrow> string \<Rightarrow> string" where
  "rstrip chars s = rev (dropWhile (\<lambda>c. c \<in> set chars) (rev s))"

definition strip :: "string \<Rightarrow> string \<Rightarrow> string" where
  "strip chars s = dropWhile (\<lambda>c. c \<in> set chars) (rstrip chars s)"

fun join :: "string \<Rightarrow> string list \<Rightarrow> string" where
  "join sep [] = []"
| "join sep [x] = x"
| "join sep (x # y # xs) = x @ sep @ join sep (y # xs)"

text \<open>\<^verbatim>\<open>sub in s\<close>: \<open>sub\<close> occurs in \<open>s\<close> as a contiguous substring.\<close>

fun str_contains :: "string \<Rightarrow> string \<Rightarrow> bool" where
  "str_contains sub [] = (sub = [])"
| "str_contains sub (c # s) = (startswith (c # s) sub \<or> str_contains sub s)"

text \<open>\<^verbatim>\<open>s.split('::')\<close>, scanning left to right; \<open>cur\<close> is the piece being read.\<close>

fun split_colons :: "string \<Rightarrow> string \<Rightarrow> string list" where
  "split_colons cur [] = [cur]"
| "split_colons cur [c] = [cur @ [c]]"
| "split_colons cur (c # d # s) =
     (if c = CHR '':'' \<and> d = CHR '':'' then cur # split_colons [] s
      else split_colons (cur @ [c]) (d # s))"

text \<open>\<^verbatim>\<open>'%d' % n\<close> for the counts and indices the generator prints.\<close>

definition digit :: "nat \<Rightarrow> char" where
  "digit d = (if d = 0 then CHR ''0'' else if d = 1 then CHR ''1'' else if d = 2 then CHR ''2''
     else if d = 3 then CHR ''3'' else if d = 4 then CHR ''4'' else if d = 5 then CHR ''5''
     else if d = 6 then CHR ''6'' else if d = 7 then CHR ''7'' else if d = 8 then CHR ''8''
     else CHR ''9'')"

fun str_nat :: "nat \<Rightarrow> string" where
  "str_nat n = (if n < 10 then [digit n] else str_nat (n div 10) @ [digit (n mod 10)])"

declare str_nat.simps [simp del]

definition str_int :: "int \<Rightarrow> string" where
  "str_int i = (if i < 0 then CHR ''-'' # str_nat (nat (- i)) else str_nat (nat i))"

text \<open>
  The exceptions the helpers raise. A generator that raises has already yielded the lines before
  the \<^verbatim>\<open>raise\<close>: its run is the list of lines yielded and then either the exception or the
  value the following code goes on with.
\<close>

datatype error =
    AssertionError string
  | ValueError string
  | TypeError string
  | IndexError
  | KeyError string

type_synonym 'a gen = "string list \<times> (error + 'a)"

definition yield :: "string list \<Rightarrow> unit gen" where
  "yield ls = (ls, Inr ())"

definition raise :: "error \<Rightarrow> 'a gen" where
  "raise e = ([], Inl e)"

definition gen_return :: "'a \<Rightarrow> 'a gen" where
  "gen_return x = ([], Inr x)"

definition gen_bind :: "'a gen \<Rightarrow> ('a \<Rightarrow> 'b gen) \<Rightarrow> 'b gen" where
  "gen_bind m f =
     (case snd m of
        Inl e \<Rightarrow> (fst m, Inl e)
      | Inr x \<Rightarrow> (fst m @ fst (f x), snd (f x)))"

definition I :: string where
  "I = ''  ''"

section \<open>The interface description consumed by the generator\<close>

text \<open>
  The fields of the AST protobuf messages that \<^verbatim>\<open>gen.py\<close> reads. \<^verbatim>\<open>Type.callable\<close> is an
  optional \<^verbatim>\<open>FuncDecl\<close>, so the three messages are mutually recursive. The field \<^verbatim>\<open>type\<close> of a
  parameter is \<open>ptype\<close>, the names of a parameter and of a function are \<open>pname\<close> and \<open>name\<close>.
\<close>

record name_decl =
  native :: string
  cpp_name :: string

datatype ast_type = AstType
    (lang_type: string)
    (cpp_type: string)
    (cpp_raw_pointer: bool)
    (cpp_toptr_conversion: bool)
    (cpp_touniqptr_conversion: bool)
    (cpp_abstract: bool)
    (cpp_has_def_ctor: bool)
    (cpp_has_public_dtor: bool)
    (callable: "func_decl option")
and param_decl = ParamDecl
    (pname: name_decl)
    (ptype: ast_type)
    (default_value: string)
and func_decl = FuncDecl
    (name: name_decl)
    (params: "param_decl list")
    (returns: "param_decl list")
    (classmethod: bool)
    (async: bool)
    (postproc: string)
    (cpp_const_method: bool)
    (cpp_noexcept: bool)

text \<open>
  The modules \<^verbatim>\<open>astutils\<close> and \<^verbatim>\<open>postconv\<close> are collaborators outside the source file: the
  formatters they provide are parameters of the model. \<open>Type\<close> is \<^verbatim>\<open>astutils.Type\<close>.
\<close>

record astutils =
  Type :: "param_decl \<Rightarrow> string"
  TupleStr :: "string list \<Rightarrow> string"
  StdFuncParamStr :: "func_decl \<Rightarrow> string"
  FuncReturnType :: "func_decl \<Rightarrow> bool \<Rightarrow> string"
  FuncParamStr :: "func_decl \<Rightarrow> string \<Rightarrow> bool \<Rightarrow> string"
  FuncReturns :: "func_decl \<Rightarrow> string list"

section \<open>Parameter materialization\<close>

text \<open>
  \<^verbatim>\<open>_CreateInputParameter(func_name, ast_param, arg, args)\<close> returns the declaration of the C++
  local \<open>arg\<close> and appends the call-site expression to \<open>args\<close>; the model returns the declaration
  and the list after the append. No path appends before it raises.
\<close>

definition CreateInputParameter ::
  "astutils \<Rightarrow> string \<Rightarrow> param_decl \<Rightarrow> string \<Rightarrow> string list \<Rightarrow> error + (string \<times> string list)"
where
  "CreateInputParameter au func_name ast_param arg args =
    (let pt = ptype ast_param;
         ctype = cpp_type pt;
         smartptr = (startswith ctype ''::std::unique_ptr'' \<or> startswith ctype ''::std::shared_ptr'');
         cant = Inl (TypeError (''Can't convert '' @ lang_type pt @ '' to '' @ ctype))
     in
     if ctype = [] then
       (case callable pt of
          None \<Rightarrow> Inl (AssertionError ''Non-callable param has empty cpp_type'')
        | Some c \<Rightarrow>
            if length (returns c) > 1 then
              Inl (ValueError (''Callbacks may not have any output parameters, '' @ func_name
                     @ '' param '' @ native (pname ast_param) @ '' has ''
                     @ str_nat (length (returns c) - 1)))
            else Inr (''std::function<'' @ StdFuncParamStr au c @ ''> '' @ arg @ '';'',
                      args @ [''std::move('' @ arg @ '')'']))
     else if cpp_raw_pointer pt then
       (if cpp_toptr_conversion pt then Inr (ctype @ '' '' @ arg @ '';'', args @ [arg])
        else
          let t = butlast ctype in
          if endswith ctype ''*'' then
            (if cpp_abstract pt then
               (if cpp_touniqptr_conversion pt then
                  Inr (''::std::unique_ptr<'' @ t @ ''> '' @ arg @ '';'', args @ [arg @ ''.get()''])
                else cant)
             else if cpp_has_public_dtor pt then
               (if cpp_has_def_ctor pt then
                  Inr (t @ '' '' @ arg @ '';'', args @ [''&'' @ arg])
                else
                  Inr (''::gtl::optional<'' @ t @ ''> '' @ arg @ '';'',
                       args @ [''&'' @ arg @ ''.value()'']))
             else cant)
          else cant)
     else if (smartptr \<or> cpp_abstract pt) \<and> \<not> cpp_touniqptr_conversion pt then
       Inl (TypeError (''Can't create \"'' @ native (pname ast_param) @ ''\" variable (C++ type ''
              @ ctype @ '') in function '' @ func_name @ '', no valid conversion defined''))
     else if smartptr then
       Inr (ctype @ '' '' @ arg @ '';'', args @ [''std::move('' @ arg @ '')''])
     else if cpp_toptr_conversion pt then
       Inr (ctype @ ''* '' @ arg @ '';'', args @ [''*'' @ arg])
     else if cpp_abstract pt then
       Inr (''std::unique_ptr<'' @ ctype @ ''> '' @ arg @ '';'', args @ [''*'' @ arg])
     else if cpp_has_def_ctor pt then
       Inr (ctype @ '' '' @ arg @ '';'', args @ [''std::move('' @ arg @ '')''])
     else
       Inr (''::gtl::optional<'' @ ctype @ ''> '' @ arg @ '';'', args @ [arg @ ''.value()'']))"

section \<open>The function-call wrapper\<close>

text \<open>
  \<^verbatim>\<open>call\<close> is a string or a list of strings; \<^verbatim>\<open>prepend_self\<close> is a parameter or \<^verbatim>\<open>None\<close>;
  \<^verbatim>\<open>ctxmgr\<close> is \<^verbatim>\<open>False\<close> (here \<open>None\<close>) or the name with its marker.
\<close>

datatype call_cmd = CallStr string | CallList "string list"

definition GenExceptionTry :: "string list" where
  "GenExceptionTry =
     [I @ ''PyObject* err_type = nullptr;'',
      I @ ''string err_msg{\"C++ exception\"};'',
      I @ ''try {'']"

definition GenExceptionCatch :: "string list" where
  "GenExceptionCatch =
     [I @ ''} catch(const std::exception& e) {'',
      I @ I @ ''err_type = PyExc_RuntimeError;'',
      I @ I @ ''err_msg += string(\": \") + e.what();'',
      I @ ''} catch (...) {'',
      I @ I @ ''err_type = PyExc_RuntimeError;'',
      I @ ''}'']"

definition GenExceptionRaise :: "string list" where
  "GenExceptionRaise =
     [I @ ''if (err_type) {'',
      I @ I @ ''PyErr_SetString(err_type, err_msg.c_str());'',
      I @ I @ ''return nullptr;'',
      I @ ''}'']"

text \<open>Lines 366-371: the context-manager marker and the name without it.\<close>

definition FunctionCall_ctxmgr :: "string \<Rightarrow> (string option \<times> string) gen" where
  "FunctionCall_ctxmgr pyname =
     (if endswith pyname ''@'' then
        (if pyname = ''__enter__@'' \<or> pyname = ''__exit__@''
         then gen_return (Some pyname, rstrip ''@'' pyname)
         else raise (AssertionError (''Invalid context manager name '' @ pyname)))
      else gen_return (None, pyname))"

text \<open>Lines 375-383: the signature comment and the entry point.\<close>

definition FunctionCall_head :: "string \<Rightarrow> string \<Rightarrow> func_decl \<Rightarrow> string list" where
  "FunctionCall_head wrapper doc func_ast =
     (let nargs = length (params func_ast);
          arg0 = (if classmethod func_ast then ''cls'' else ''self'')
      in [[],
          (if classmethod func_ast then ''// @classmethod '' @ doc else ''// '' @ doc),
          ''static PyObject* '' @ wrapper @ ''(PyObject* '' @ arg0
            @ (if nargs \<noteq> 0 then '', PyObject* args, PyObject* kw'' else []) @ '') {''])"

text \<open>\<^verbatim>\<open>yield I+_CreateInputParameter(...)\<close>: the declaration line, and the arguments so far.\<close>

definition yield_param ::
  "astutils \<Rightarrow> string \<Rightarrow> param_decl \<Rightarrow> string \<Rightarrow> string list \<Rightarrow> (string list) gen"
where
  "yield_param au func_name p arg args =
     (case CreateInputParameter au func_name p arg args of
        Inl e \<Rightarrow> raise e
      | Inr (decl, args') \<Rightarrow> ([I @ decl], Inr args'))"

text \<open>Lines 384-387: \<^verbatim>\<open>self\<close> as the first argument of the native call.\<close>

definition FunctionCall_self ::
  "astutils \<Rightarrow> string \<Rightarrow> int \<Rightarrow> param_decl option \<Rightarrow> (string list) gen"
where
  "FunctionCall_self au pyname lineno prepend_self =
     (case prepend_self of
        None \<Rightarrow> gen_return []
      | Some ps \<Rightarrow>
          gen_bind (yield_param au (pyname @ '' line '' @ str_int lineno) ps ''arg0'' [])
            (\<lambda>args. gen_bind (yield [I @ ''if (!Clif_PyObjAs(self, &arg0)) return nullptr;''])
               (\<lambda>_. gen_return args)))"

text \<open>Line 388: the parameters without a default value.\<close>

definition minargs_of :: "func_decl \<Rightarrow> nat" where
  "minargs_of func_ast = length (filter (\<lambda>p. default_value p = []) (params func_ast))"

text \<open>Lines 390-404: parsing the Python arguments into \<^verbatim>\<open>a[]\<close>.\<close>

definition FunctionCall_parse :: "string \<Rightarrow> func_decl \<Rightarrow> string list" where
  "FunctionCall_parse pyname func_ast =
     (let nargs = length (params func_ast); minargs = minargs_of func_ast
      in [I @ ''PyObject* a['' @ str_nat nargs @ '']'' @ (if minargs = nargs then [] else ''{}'')
            @ '';'',
          I @ ''char* names[] = {'']
         @ map (\<lambda>p. I @ I @ I @ ''C(\"'' @ native (pname p) @ ''\"),'') (params func_ast)
         @ [I @ I @ I @ ''nullptr'',
            I @ ''};'',
            I @ ''if (!PyArg_ParseTupleAndKeywords(args, kw, \"''
              @ (if minargs = nargs then replicate nargs CHR ''O''
                 else replicate minargs CHR ''O'' @ ''|'' @ replicate (nargs - minargs) CHR ''O'')
              @ '':'' @ pyname @ ''\", names, ''
              @ join '', '' (map (\<lambda>i. ''&a['' @ str_nat i @ '']'') [0..<nargs])
              @ '')) return nullptr;'']
         @ (if minargs < nargs then
              [I @ ''int nargs;  // Find how many args actually passed in.'',
               I @ ''for (nargs = '' @ str_nat nargs @ ''; nargs > '' @ str_nat minargs
                 @ ''; --nargs) {'',
               I @ I @ ''if (a[nargs-1] != nullptr) break;'',
               I @ ''}'']
            else []))"

text \<open>Lines 410-412: the conversion statement of parameter \<open>i\<close>.\<close>

definition cvt_line :: "astutils \<Rightarrow> string \<Rightarrow> nat \<Rightarrow> param_decl \<Rightarrow> string" where
  "cvt_line au pyname i p =
     ''if (!Clif_PyObjAs(a['' @ str_nat i @ ''], &arg'' @ str_nat (i + 1)
       @ '')) return ArgError(\"'' @ pyname @ ''\", names['' @ str_nat i @ ''], \"'' @ Type au p
       @ ''\", a['' @ str_nat i @ '']);''"

text \<open>Lines 413-434: what follows the declaration of parameter \<open>i\<close>.\<close>

definition convert_lines ::
  "astutils \<Rightarrow> string \<Rightarrow> nat \<Rightarrow> nat \<Rightarrow> nat \<Rightarrow> param_decl \<Rightarrow> string list"
where
  "convert_lines au pyname nargs minargs i p =
     (let n = i + 1; arg = ''arg'' @ str_nat n; cvt = cvt_line au pyname i p
      in if i < minargs then [I @ cvt]
         else
           [I @ ''if (nargs > '' @ str_nat i @ '') {'']
           @ (if default_value p = ''default'' \<or> str_contains ''inf'' (default_value p) then
                (if n < nargs then
                   [I @ I @ ''if (!a['' @ str_nat i @ '']) return DefaultArgMissedError(\"''
                      @ pyname @ ''\", names['' @ str_nat i @ '']);'']
                 else [])
                @ [I @ I @ cvt]
              else
                [I @ I @ ''if (!a['' @ str_nat i @ '']) '' @ arg @ '' = ('' @ Type au p @ '')''
                   @ default_value p @ '';'',
                 I @ I @ ''else '' @ cvt])
           @ [I @ ''}''])"

text \<open>Lines 406-434: one round of the loop over the parameters, and the loop from index \<open>i\<close>.\<close>

definition convert_param ::
  "astutils \<Rightarrow> string \<Rightarrow> int \<Rightarrow> nat \<Rightarrow> nat \<Rightarrow> nat \<Rightarrow> param_decl \<Rightarrow> string list
     \<Rightarrow> (string list) gen"
where
  "convert_param au pyname lineno nargs minargs i p args =
     gen_bind (yield_param au (pyname @ '' line '' @ str_int lineno) p
                 (''arg'' @ str_nat (i + 1)) args)
       (\<lambda>args'. gen_bind (yield (convert_lines au pyname nargs minargs i p))
          (\<lambda>_. gen_return args'))"

fun convert_params ::
  "astutils \<Rightarrow> string \<Rightarrow> int \<Rightarrow> nat \<Rightarrow> nat \<Rightarrow> nat \<Rightarrow> param_decl list \<Rightarrow> string list
     \<Rightarrow> (string list) gen"
where
  "convert_params au pyname lineno nargs minargs i [] args = gen_return args"
| "convert_params au pyname lineno nargs minargs i (p # ps) args =
     gen_bind (convert_param au pyname lineno nargs minargs i p args)
       (convert_params au pyname lineno nargs minargs (Suc i) ps)"

text \<open>Lines 436-441: locals for the return values passed as output parameters.\<close>

definition is_extra_return :: "bool \<Rightarrow> nat \<times> param_decl \<Rightarrow> bool" where
  "is_extra_return void_return_type np = (fst np \<noteq> 0 \<or> void_return_type)"

definition FunctionCall_retdecl ::
  "astutils \<Rightarrow> func_decl \<Rightarrow> string list \<Rightarrow> (string list) gen"
where
  "FunctionCall_retdecl au func_ast args =
     (let void_return_type = (FuncReturnType au func_ast False = ''void'');
          extra = filter (is_extra_return void_return_type) (enumerate 0 (returns func_ast))
      in (map (\<lambda>np. I @ Type au (snd np) @ '' ret'' @ str_nat (fst np) @ ''{};'') extra,
          Inr (args @ map (\<lambda>np. ''&ret'' @ str_nat (fst np)) extra)))"

text \<open>Lines 372-434: the entry point and the conversion of the arguments.\<close>

definition FunctionCall_convert ::
  "astutils \<Rightarrow> string \<Rightarrow> string \<Rightarrow> string \<Rightarrow> func_decl \<Rightarrow> int \<Rightarrow> param_decl option
     \<Rightarrow> (string list) gen"
where
  "FunctionCall_convert au pyname wrapper doc func_ast lineno prepend_self =
     (let nargs = length (params func_ast); minargs = minargs_of func_ast
      in gen_bind (yield (FunctionCall_head wrapper doc func_ast))
        (\<lambda>_. gen_bind (FunctionCall_self au pyname lineno prepend_self)
        (\<lambda>args0. gen_bind (yield (if nargs \<noteq> 0 then FunctionCall_parse pyname func_ast else []))
        (\<lambda>_. convert_params au pyname lineno nargs minargs 0 (params func_ast) args0))))"

text \<open>Lines 372-441: everything before the call; the value is the list \<^verbatim>\<open>params\<close>.\<close>

definition FunctionCall_inputs ::
  "astutils \<Rightarrow> string \<Rightarrow> string \<Rightarrow> string \<Rightarrow> func_decl \<Rightarrow> int \<Rightarrow> param_decl option
     \<Rightarrow> (string list) gen"
where
  "FunctionCall_inputs au pyname wrapper doc func_ast lineno prepend_self =
     gen_bind (FunctionCall_convert au pyname wrapper doc func_ast lineno prepend_self)
       (FunctionCall_retdecl au func_ast)"

text \<open>
  Lines 442-446: the commands before the call; the value is the command that takes the
  arguments. \<^verbatim>\<open>call[-1]\<close> of an empty list raises.
\<close>

definition FunctionCall_callcmd :: "call_cmd \<Rightarrow> string gen" where
  "FunctionCall_callcmd call =
     gen_bind (yield [I @ ''// Call actual C++ method.''])
       (\<lambda>_. case call of
               CallStr s \<Rightarrow> gen_return s
             | CallList ss \<Rightarrow>
                 gen_bind (yield (map (\<lambda>s. I @ s) (butlast ss)))
                   (\<lambda>_. if ss = [] then raise IndexError else gen_return (last ss)))"

text \<open>Lines 447-452 and 490-494: leaving and re-entering the interpreter lock.\<close>

definition async_begin :: "func_decl \<Rightarrow> string list" where
  "async_begin func_ast =
     (if async func_ast then
        (if params func_ast \<noteq> [] then [I @ ''Py_INCREF(args);'', I @ ''Py_XINCREF(kw);''] else [])
        @ [I @ ''PyThreadState* _save;'', I @ ''Py_UNBLOCK_THREADS'']
      else [])"

definition async_end :: "func_decl \<Rightarrow> string list" where
  "async_end func_ast =
     (if async func_ast then
        [I @ ''Py_BLOCK_THREADS'']
        @ (if params func_ast \<noteq> [] then [I @ ''Py_DECREF(args);'', I @ ''Py_XDECREF(kw);''] else [])
      else [])"

text \<open>
  Lines 453-461: the local \<^verbatim>\<open>ret0\<close> declared ahead of the call; the value is
  \<^verbatim>\<open>optional_ret0\<close>. \<^verbatim>\<open>func_ast.returns[0]\<close> of an empty list raises.
\<close>

definition FunctionCall_ret0 :: "astutils \<Rightarrow> bool \<Rightarrow> func_decl \<Rightarrow> bool gen" where
  "FunctionCall_ret0 au catch func_ast =
     (let return_type = FuncReturnType au func_ast False;
          void_return_type = (return_type = ''void'');
          nargs = length (params func_ast); minargs = minargs_of func_ast
      in if (minargs < nargs \<or> catch) \<and> \<not> void_return_type then
           (case returns func_ast of
              [] \<Rightarrow> raise IndexError
            | r # _ \<Rightarrow>
                if cpp_has_def_ctor (ptype r) then ([I @ return_type @ '' ret0;''], Inr False)
                else ([I @ ''::gtl::optional<'' @ return_type @ ''> ret0;''], Inr True))
         else gen_return False)"

text \<open>Lines 468-472: the switch over the number of arguments passed in.\<close>

definition switch_nargs :: "astutils \<Rightarrow> string \<Rightarrow> string list \<Rightarrow> nat \<Rightarrow> nat \<Rightarrow> string list" where
  "switch_nargs au call args minargs nargs =
     [I @ ''switch (nargs) {'']
     @ concat (map (\<lambda>n. [I @ ''case '' @ str_nat n @ '':'',
                          I @ I @ call @ TupleStr au (take n args) @ ''; break;''])
                [minargs..<nargs + 1])
     @ [I @ ''}'']"

text \<open>Lines 462-484: the call, inside the try region when exceptions are caught.\<close>

definition FunctionCall_native ::
  "astutils \<Rightarrow> bool \<Rightarrow> string \<Rightarrow> string list \<Rightarrow> func_decl \<Rightarrow> string list"
where
  "FunctionCall_native au catch call args func_ast =
     (let return_type = FuncReturnType au func_ast False;
          void_return_type = (return_type = ''void'');
          nargs = length (params func_ast); minargs = minargs_of func_ast
      in (if catch then GenExceptionTry else [])
         @ (if minargs < nargs then
              switch_nargs au (if \<not> void_return_type then ''ret0 = '' @ call else call)
                args minargs nargs
            else
              (let call' = call @ TupleStr au args; I' = (if catch then I else [])
               in if void_return_type then [I' @ I @ call' @ '';'']
                  else if catch then [I' @ I @ ''ret0 = '' @ call' @ '';'']
                  else [I' @ I @ return_type @ '' ret0 = '' @ call' @ '';'']))
         @ (if catch then GenExceptionCatch else []))"

text \<open>Lines 485-497: after the call.\<close>

definition FunctionCall_postcall ::
  "astutils \<Rightarrow> string \<Rightarrow> bool \<Rightarrow> func_decl \<Rightarrow> string list"
where
  "FunctionCall_postcall au postcall_init catch func_ast =
     (let void_return_type = (FuncReturnType au func_ast False = ''void'')
      in (if postcall_init \<noteq> [] then
            (if void_return_type then [I @ postcall_init] else [I @ ''ret0'' @ postcall_init])
          else [])
         @ async_end func_ast
         @ (if catch then GenExceptionRaise else []))"

text \<open>Lines 503-509: converting return value \<open>i\<close> into the result tuple.\<close>

definition tuple_item ::
  "(ast_type \<Rightarrow> (string \<rightharpoonup> nat) \<Rightarrow> string) \<Rightarrow> (string \<rightharpoonup> nat) \<Rightarrow> func_decl \<Rightarrow> nat
     \<Rightarrow> string list"
where
  "tuple_item Initializer typepostconversion func_ast i =
     [I @ ''if ((p=Clif_PyObjFrom(std::move(ret'' @ str_nat i @ ''), ''
        @ Initializer (ptype (returns func_ast ! i)) typepostconversion @ '')) == nullptr) {'',
      I @ I @ ''Py_DECREF(result_tuple);'',
      I @ I @ ''return nullptr;'',
      I @ ''}'',
      I @ ''PyTuple_SET_ITEM(result_tuple, '' @ str_nat i @ '', p);'']"

text \<open>Lines 498-542: converting the result and closing the function.\<close>

definition FunctionCall_return ::
  "(ast_type \<Rightarrow> (string \<rightharpoonup> nat) \<Rightarrow> string) \<Rightarrow> (string \<rightharpoonup> nat) \<Rightarrow> func_decl
     \<Rightarrow> string option \<Rightarrow> bool \<Rightarrow> string list"
where
  "FunctionCall_return Initializer typepostconversion func_ast ctxmgr optional_ret0 =
     (let nret = length (returns func_ast)
      in (if nret > 1 \<or> ((postproc func_ast \<noteq> [] \<or> ctxmgr \<noteq> None) \<and> nret \<noteq> 0) then
            [I @ ''// Convert return values to Python.'',
             I @ ''PyObject* p, * result_tuple = PyTuple_New('' @ str_nat nret @ '');'',
             I @ ''if (result_tuple == nullptr) return nullptr;'']
            @ concat (map (tuple_item Initializer typepostconversion func_ast) [0..<nret])
            @ (if postproc func_ast \<noteq> [] then
                 [I @ ''PyObject* pyproc = ImportFQName(\"'' @ postproc func_ast @ ''\");'',
                  I @ ''if (pyproc == nullptr) {'',
                  I @ I @ ''Py_DECREF(result_tuple);'',
                  I @ I @ ''return nullptr;'',
                  I @ ''}'',
                  I @ ''p = PyObject_CallObject(pyproc, result_tuple);'',
                  I @ ''Py_DECREF(pyproc);'',
                  I @ ''Py_CLEAR(result_tuple);'']
                 @ (if ctxmgr \<noteq> None then
                      [I @ ''if (p == nullptr) return nullptr;'',
                       I @ ''Py_DECREF(p);  // Not needed by the context manager.'']
                    else [I @ ''result_tuple = p;''])
               else [])
            @ (if ctxmgr = Some ''__enter__@'' then
                 [I @ ''Py_XDECREF(result_tuple);'', I @ ''Py_INCREF(self);'', I @ ''return self;'']
               else if ctxmgr = Some ''__exit__@'' then
                 [I @ ''Py_XDECREF(result_tuple);'', I @ ''Py_RETURN_NONE;'']
               else [I @ ''return result_tuple;''])
          else if nret \<noteq> 0 then
            [I @ ''return Clif_PyObjFrom(std::move(ret0''
               @ (if optional_ret0 then ''.value()'' else []) @ ''), ''
               @ Initializer (ptype (returns func_ast ! 0)) typepostconversion @ '');'']
          else if ctxmgr = Some ''__enter__@'' then
            [I @ ''Py_INCREF(self);'', I @ ''return self;'']
          else [I @ ''Py_RETURN_NONE;''])
         @ [''}''])"

text \<open>
  \<^verbatim>\<open>FunctionCall(pyname, wrapper, doc, catch, call, postcall_init, typepostconversion,
  func_ast, lineno, prepend_self)\<close>: the lines of the wrapper, and the exception that ended
  the generation if one did.
\<close>

definition FunctionCall ::
  "astutils \<Rightarrow> (ast_type \<Rightarrow> (string \<rightharpoonup> nat) \<Rightarrow> string) \<Rightarrow> string \<Rightarrow> string \<Rightarrow> string \<Rightarrow> bool
     \<Rightarrow> call_cmd \<Rightarrow> string \<Rightarrow> (string \<rightharpoonup> nat) \<Rightarrow> func_decl \<Rightarrow> int \<Rightarrow> param_decl option
     \<Rightarrow> unit gen"
where
  "FunctionCall au Initializer pyname wrapper doc catch call postcall_init typepostconversion
     func_ast lineno prepend_self =
     gen_bind (FunctionCall_ctxmgr pyname)
       (\<lambda>cp. gen_bind (FunctionCall_inputs au (snd cp) wrapper doc func_ast lineno prepend_self)
       (\<lambda>args. gen_bind (FunctionCall_callcmd call)
       (\<lambda>call'. gen_bind (yield (async_begin func_ast))
       (\<lambda>_. gen_bind (FunctionCall_ret0 au catch func_ast)
       (\<lambda>optional_ret0.
          yield (FunctionCall_native au catch call' args func_ast
                 @ FunctionCall_postcall au postcall_init catch func_ast
                 @ FunctionCall_return Initializer typepostconversion func_ast (fst cp)
                     optional_ret0))))))"

section \<open>The virtual redirector\<close>

text \<open>
  \<^verbatim>\<open>VirtualFunctionCall(fname, f, pyname, abstract, postconvinit)\<close>; the last argument is not
  used. The range of the moved arguments is empty when its bound is not positive.
\<close>

definition VirtualFunctionCall ::
  "astutils \<Rightarrow> string \<Rightarrow> func_decl \<Rightarrow> string \<Rightarrow> bool \<Rightarrow> 'a \<Rightarrow> string list"
where
  "VirtualFunctionCall au fname f pyname abstract postconvinit =
     (let cname = cpp_name (name f);
          ret = FuncReturnType au f True;
          arg = FuncParamStr au f ''a'' True;
          mods = [[]] @ (if cpp_const_method f then [''const''] else [])
                @ (if cpp_noexcept f then [''noexcept''] else []);
          moved = TupleStr au
                    (map (\<lambda>i. ''std::move(a'' @ str_nat i @ '')'')
                       [0..<nat (int (length (params f)) + int (length (returns f))
                                  - (if ret \<noteq> ''void'' then 1 else 0))]);
          ret_st = (if ret \<noteq> ''void'' then ''return '' else [])
      in [[],
          I @ ret @ '' '' @ fname @ arg @ join '' '' mods @ '' override {'',
          I @ I @ ''auto f = ::clif::SafeGetAttrString(pythis.get(), C(\"'' @ native (name f)
            @ ''\"));'',
          I @ I @ ''if (f.get()) {'',
          I @ I @ I @ ret_st @ ''::clif::callback::Func<''
            @ join '', '' ([ret] @ map (Type au) (params f) @ FuncReturns au f)
            @ ''>(f.get())'' @ moved @ '';'',
          I @ I @ ''} else {'']
         @ (if abstract then
              [I @ I @ I @ ''Py_FatalError(\"@virtual method '' @ pyname @ ''.'' @ native (name f)
                 @ '' has no Python implementation.\");'',
               I @ I @ I @ ''abort();'']
            else [I @ I @ I @ ret_st @ cname @ moved @ '';''])
         @ [I @ I @ ''}'', I @ ''}''])"

section \<open>The type object\<close>

text \<open>
  A value of the dict \<^verbatim>\<open>tp_slots\<close> is a string, or for \<^verbatim>\<open>tp_flags\<close> a list of strings;
  \<^verbatim>\<open>' | '.join(v)\<close> of a string joins its characters. \<^verbatim>\<open>ctor\<close> is a string or \<^verbatim>\<open>None\<close>, and
  \<^verbatim>\<open>if ctor\<close> holds for a string that is not empty.
\<close>

datatype slot = Str string | Strs "string list"

definition joinable :: "slot \<Rightarrow> string list" where
  "joinable v = (case v of Strs xs \<Rightarrow> xs | Str s \<Rightarrow> map (\<lambda>c. [c]) s)"

definition truthy :: "string option \<Rightarrow> bool" where
  "truthy s = (s \<noteq> None \<and> s \<noteq> Some [])"

text \<open>Lines 235-242: the slots set before \<^verbatim>\<open>tp_flags\<close> is read.\<close>

definition TypeObject_slots :: "(string \<rightharpoonup> slot) \<Rightarrow> string \<Rightarrow> string option \<Rightarrow> (string \<rightharpoonup> slot)"
where
  "TypeObject_slots tp_slots wname ctor =
     tp_slots
       (''tp_free'' \<mapsto> Str ''_dtor'',
        ''tp_dealloc'' \<mapsto> Str ''Clif_PyType_GenericFree'',
        ''tp_alloc'' \<mapsto> Str ''_allocator'',
        ''tp_new'' \<mapsto> Str ''PyType_GenericNew'',
        ''tp_init'' \<mapsto> Str (if truthy ctor then ''_ctor'' else ''Clif_PyType_Inconstructible''),
        ''tp_basicsize'' \<mapsto> Str (''sizeof('' @ wname @ '')''),
        ''tp_itemsize'' \<mapsto> Str ''0'',
        ''tp_version_tag'' \<mapsto> Str ''0'',
        ''tp_dictoffset'' \<mapsto> Str ''0'',
        ''tp_weaklistoffset'' \<mapsto> Str ''0'')"

text \<open>Lines 253-277: the constructor trampoline \<^verbatim>\<open>_ctor\<close>.\<close>

definition TypeObject_ctor ::
  "string \<Rightarrow> string \<Rightarrow> string \<Rightarrow> string option \<Rightarrow> bool \<Rightarrow> string \<Rightarrow> string list"
where
  "TypeObject_ctor pyname wname fqclassname ctor abstract subst_cpp_ptr =
     (let wtype = wname @ ''_Type'';
          cpp = ''reinterpret_cast<'' @ wname @ ''*>(self)->cpp''
      in if truthy ctor then
           [''static int _ctor(PyObject* self, PyObject* args, PyObject* kw) {'']
           @ (if abstract then
                [I @ ''if (Py_TYPE(self) == &'' @ wtype @ '') {'',
                 I @ I @ ''return Clif_PyType_Inconstructible(self, args, kw);'',
                 I @ ''}'']
              else [])
           @ (if ctor = Some ''DEF'' then
                [I @ ''if ((args && PyTuple_GET_SIZE(args) != 0) || (kw && PyDict_Size(kw) != 0)) {'',
                 I @ I @ ''PyErr_SetString(PyExc_TypeError, \"'' @ pyname
                   @ '' takes no arguments\");'',
                 I @ I @ ''return -1;'',
                 I @ ''}'',
                 I @ cpp @ '' = ::clif::MakeShared<''
                   @ (if subst_cpp_ptr \<noteq> [] then subst_cpp_ptr else fqclassname) @ ''>();'']
                @ (if subst_cpp_ptr \<noteq> [] then [I @ cpp @ ''->::clif::PyObj::Init(self);'']
                   else [])
                @ [I @ ''return 0;'']
              else
                [I @ ''PyObject* init = '' @ the ctor @ ''(self, args, kw);'',
                 I @ ''Py_XDECREF(init);'',
                 I @ ''return init? 0: -1;''])
           @ [''}'']
         else [])"

text \<open>
  \<^verbatim>\<open>TypeObject(tp_slots, slotgen, pyname, wname, fqclassname, ctor, abstract, async_dtor,
  subst_cpp_ptr)\<close>: the run of the generator and the dict \<^verbatim>\<open>tp_slots\<close> as it leaves it. Reading
  \<^verbatim>\<open>tp_slots['tp_flags']\<close> raises when the key is absent. \<^verbatim>\<open>slotgen\<close> is the caller's generator
  of the table body.
\<close>

definition TypeObject ::
  "(string \<rightharpoonup> slot) \<Rightarrow> ((string \<rightharpoonup> slot) \<Rightarrow> string list) \<Rightarrow> string \<Rightarrow> string \<Rightarrow> string
     \<Rightarrow> string option \<Rightarrow> bool \<Rightarrow> bool \<Rightarrow> string \<Rightarrow> unit gen \<times> (string \<rightharpoonup> slot)"
where
  "TypeObject tp_slots slotgen pyname wname fqclassname ctor abstract async_dtor subst_cpp_ptr =
     (let dtor =
            [[],
             ''// '' @ pyname @ '' __new__'',
             ''static PyObject* _allocator(PyTypeObject* type, Py_ssize_t nitems);'',
             ''// '' @ pyname @ '' __init__'',
             ''static int _ctor(PyObject* self, PyObject* args, PyObject* kw);'',
             [],
             ''static void _dtor(void* self) {'']
            @ (if async_dtor then [I @ ''Py_BEGIN_ALLOW_THREADS''] else [])
            @ [I @ ''delete reinterpret_cast<'' @ wname @ ''*>(self);'']
            @ (if async_dtor then [I @ ''Py_END_ALLOW_THREADS''] else [])
            @ [''}''];
          slots1 = TypeObject_slots tp_slots wname ctor
      in case slots1 ''tp_flags'' of
           None \<Rightarrow> ((dtor, Inl (KeyError ''tp_flags'')), slots1)
         | Some flags \<Rightarrow>
             (let slots2 = slots1
                    (''tp_flags'' \<mapsto> Str (join '' | '' (joinable flags)),
                     ''tp_doc'' \<mapsto> Str (''\"CLIF wrapper for '' @ fqclassname @ ''\"''));
                  wtype = wname @ ''_Type''
              in ((dtor
                   @ [[],
                      ''PyTypeObject '' @ wtype @ '' = {'',
                      I @ ''PyVarObject_HEAD_INIT(&PyType_Type, 0)'']
                   @ slotgen slots2
                   @ [''};'', []]
                   @ TypeObject_ctor pyname wname fqclassname ctor abstract subst_cpp_ptr
                   @ [[],
                      ''static PyObject* _allocator(PyTypeObject* type, Py_ssize_t nitems) {'',
                      I @ ''assert(nitems == 0);'',
                      I @ ''PyObject* self = reinterpret_cast<PyObject*>(new '' @ wname @ '');'',
                      I @ ''return PyObject_Init(self, &'' @ wtype @ '');'',
                      ''}''],
                   Inr ()),
                  slots2)))"

section \<open>The header lines\<close>

definition VERSION :: string where
  "VERSION = ''0.2''"

text \<open>\<^verbatim>\<open>OpenNs(namespace)\<close>; \<^verbatim>\<open>namespace or 'clif'\<close> is \<^verbatim>\<open>'clif'\<close> for \<^verbatim>\<open>None\<close> and for \<^verbatim>\<open>''\<close>.\<close>

definition OpenNs :: "string option \<Rightarrow> string" where
  "OpenNs namespace =
     (let ns = strip '':'' (if truthy namespace then the namespace else ''clif'')
      in join '' '' (map (\<lambda>n. ''namespace '' @ n @ '' {'') (split_colons [] ns)))"

text \<open>
  \<^verbatim>\<open>Headlines(src_file, hdr_files, sys_hdr_files, open_ns)\<close> with \<^verbatim>\<open>hdr_files\<close> a list, as its
  docstring has it. The global \<^verbatim>\<open>PY3OUTPUT\<close> is \<^verbatim>\<open>None\<close>, \<^verbatim>\<open>True\<close> or \<^verbatim>\<open>False\<close>. The generator
  deletes from the caller's list, so the model returns the lines and the list \<^verbatim>\<open>hdr_files\<close>
  as the exhausted generator leaves it.
\<close>

definition Headlines ::
  "bool option \<Rightarrow> string \<Rightarrow> string list \<Rightarrow> string list \<Rightarrow> string option
     \<Rightarrow> string list \<times> string list"
where
  "Headlines PY3OUTPUT src_file hdr_files sys_hdr_files open_ns =
     (let python_h = (take 1 hdr_files = [''PYTHON'']);
          hdr_files' = (if python_h then drop 1 hdr_files else hdr_files)
      in ([replicate 70 CHR ''/'',
           ''// This file was automatically generated by CLIF''
             @ (case PY3OUTPUT of
                  None \<Rightarrow> []
                | Some py3 \<Rightarrow> '' to run under Python '' @ str_nat (if py3 then 3 else 2)),
           ''// Version '' @ VERSION,
           replicate 70 CHR ''/'']
          @ (if src_file \<noteq> [] then [''// source: '' @ src_file] else [])
          @ [[]]
          @ (if python_h then [''#include <Python.h>''] else [])
          @ concat (map (\<lambda>h. if h \<noteq> [] then [''#include <'' @ h @ ''>''] else []) sys_hdr_files)
          @ concat (map (\<lambda>h. if h = ''PYOBJ'' \<and> \<not> python_h then
                                 [[],
                                  ''// Forward \"declare\" PyObject (instead of #include <Python.h>)'',
                                  ''struct _object; typedef _object PyObject;'']
                               else if h \<noteq> [] then [''#include \"'' @ h @ ''\"'']
                               else [])
                      hdr_files')
          @ (if truthy open_ns then [[], OpenNs open_ns] else []),
          hdr_files'))"

section \<open>An instance of the collaborators\<close>

text \<open>
  Modelled from the spec: the formatters of \<^verbatim>\<open>astutils\<close> and the initializer of \<^verbatim>\<open>postconv\<close>
  are consumed interfaces whose code is not part of the source file. The theorems below hold
  for every formatter; this instance (a type is rendered by its native spelling, an argument
  list in parentheses with commas, a function without return values returns \<^verbatim>\<open>void\<close>) is
  what the generator is run with on concrete inputs.
\<close>

definition sample_astutils :: astutils where
  "sample_astutils =
     \<lparr> Type = (\<lambda>p. cpp_type (ptype p)),
       TupleStr = (\<lambda>xs. ''('' @ join '', '' xs @ '')''),
       StdFuncParamStr = (\<lambda>f. ''void()''),
       FuncReturnType = (\<lambda>f true_cpp_type.
          case returns f of [] \<Rightarrow> ''void'' | r # _ \<Rightarrow> cpp_type (ptype r)),
       FuncParamStr = (\<lambda>f a true_cpp_type. ''()''),
       FuncReturns = (\<lambda>f. []) \<rparr>"

definition sample_Initializer :: "ast_type \<Rightarrow> (string \<rightharpoonup> nat) \<Rightarrow> string" where
  "sample_Initializer t typepostconversion = ''{}''"

text \<open>Descriptors for the concrete runs: an \<^verbatim>\<open>int\<close> parameter with a given default, a callback
  with \<open>n\<close> return values, an abstract class passed by raw pointer (spelled with and without a
  final \<^verbatim>\<open>const\<close>), and functions built of them.\<close>

definition int_type :: ast_type where
  "int_type = AstType ''int'' ''int'' False False False False True True None"

definition int_param :: "string \<Rightarrow> string \<Rightarrow> param_decl" where
  "int_param nm dflt = ParamDecl \<lparr>native = nm, cpp_name = nm\<rparr> int_type dflt"

definition func_of :: "param_decl list \<Rightarrow> param_decl list \<Rightarrow> func_decl" where
  "func_of ps rs = FuncDecl \<lparr>native = ''f'', cpp_name = ''F''\<rparr> ps rs False False [] False False"

definition callback_param :: "nat \<Rightarrow> param_decl" where
  "callback_param n =
     ParamDecl \<lparr>native = ''cb'', cpp_name = ''cb''\<rparr>
       (AstType ''()->None'' [] False False False False False False
          (Some (func_of [] (replicate n (int_param ''r'' [])))))
       []"

definition abstract_ptr_param :: param_decl where
  "abstract_ptr_param =
     ParamDecl \<lparr>native = ''b'', cpp_name = ''b''\<rparr>
       (AstType ''Base'' ''::Base *'' True False True True False False None) []"

definition const_ptr_param :: param_decl where
  "const_ptr_param =
     ParamDecl \<lparr>native = ''b'', cpp_name = ''b''\<rparr>
       (AstType ''Base'' ''::Base *const'' True False True True False False None) []"

section \<open>Running a generator\<close>

lemma gen_bind_Inr [simp]: "gen_bind (ls, Inr x) f = (ls @ fst (f x), snd (f x))"
  by (simp add: gen_bind_def)

lemma gen_bind_Inl [simp]: "gen_bind (ls, Inl e) f = (ls, Inl e)"
  by (simp add: gen_bind_def)

lemma gen_bind_yield [simp]: "gen_bind (yield ls) f = (ls @ fst (f ()), snd (f ()))"
  by (simp add: yield_def)

lemma gen_bind_raise [simp]: "gen_bind (raise e) f = ([], Inl e)"
  by (simp add: raise_def)

lemma gen_bind_return [simp]: "gen_bind (gen_return x) f = f x"
  by (simp add: gen_return_def)

lemma gen_bind_ok:
  assumes "gen_bind m f = (ls, Inr y)"
  obtains l1 x l2 where "m = (l1, Inr x)" and "f x = (l2, Inr y)" and "ls = l1 @ l2"
proof (cases m)
  case (Pair l1 r)
  show ?thesis
  proof (cases r)
    case (Inl e)
    with Pair assms show ?thesis by simp
  next
    case (Inr x)
    from assms Pair Inr have "(l1 @ fst (f x), snd (f x)) = (ls, Inr y)"
      by simp
    then have "snd (f x) = Inr y" and "ls = l1 @ fst (f x)"
      by simp_all
    then have "f x = (fst (f x), Inr y)" and "ls = l1 @ fst (f x)"
      by (simp_all add: prod_eq_iff)
    with Pair Inr that show ?thesis by blast
  qed
qed

section \<open>Parameter materialization: function values and abstract classes\<close>

text \<open>
  C5. For a function-valued parameter (the native type spelling is empty and a callable
  descriptor is present), \<^verbatim>\<open>_CreateInputParameter\<close> raises the \<^verbatim>\<open>ValueError\<close> about output
  parameters exactly when the callable has more than one return value; otherwise it declares a
  \<^verbatim>\<open>std::function\<close> local and appends the expression that moves it.
\<close>

theorem CreateInputParameter_function_value:
  assumes "cpp_type (ptype ast_param) = []"
    and "callable (ptype ast_param) = Some c"
  shows "CreateInputParameter au func_name ast_param arg args =
           (if 1 < length (returns c)
            then Inl (ValueError (''Callbacks may not have any output parameters, '' @ func_name
                        @ '' param '' @ native (pname ast_param) @ '' has ''
                        @ str_nat (length (returns c) - 1)))
            else Inr (''std::function<'' @ StdFuncParamStr au c @ ''> '' @ arg @ '';'',
                      args @ [''std::move('' @ arg @ '')'']))"
  using assms by (simp add: CreateInputParameter_def)

theorem CreateInputParameter_function_value_witness:
  "cpp_type (ptype (callback_param 2)) = []
   \<and> callable (ptype (callback_param 2)) = Some (func_of [] (replicate 2 (int_param ''r'' [])))
   \<and> CreateInputParameter sample_astutils ''f line 7'' (callback_param 2) ''arg1'' []
       = Inl (ValueError ''Callbacks may not have any output parameters, f line 7 param cb has 1'')
   \<and> cpp_type (ptype (callback_param 1)) = []
   \<and> callable (ptype (callback_param 1)) = Some (func_of [] (replicate 1 (int_param ''r'' [])))
   \<and> CreateInputParameter sample_astutils ''f line 7'' (callback_param 1) ''arg1'' []
       = Inr (''std::function<void()> arg1;'', [''std::move(arg1)''])"
  using CreateInputParameter_function_value
          [of "callback_param 2" "func_of [] (replicate 2 (int_param ''r'' []))"
              sample_astutils "''f line 7''" "''arg1''" "[]"]
        CreateInputParameter_function_value
          [of "callback_param 1" "func_of [] (replicate 1 (int_param ''r'' []))"
              sample_astutils "''f line 7''" "''arg1''" "[]"]
  by (simp add: callback_param_def func_of_def sample_astutils_def str_nat.simps digit_def)

text \<open>
  C6, as the code has it. For a parameter flagged as a raw pointer to an abstract class, whose
  native type spelling is not empty, with no conversion to a pointer but with a conversion to
  \<^verbatim>\<open>unique_ptr\<close>: when the spelling ends in \<^verbatim>\<open>*\<close>, \<^verbatim>\<open>_CreateInputParameter\<close> declares a
  \<^verbatim>\<open>::std::unique_ptr\<close> local for the pointee type (the spelling without its last character)
  and appends the expression that takes its raw address with \<^verbatim>\<open>.get()\<close>; when the spelling
  does not end in \<^verbatim>\<open>*\<close>, it raises the \<^verbatim>\<open>TypeError\<close> of a type that cannot be converted.
\<close>

theorem CreateInputParameter_abstract_raw_pointer:
  assumes "cpp_type (ptype ast_param) \<noteq> []"
    and "cpp_raw_pointer (ptype ast_param)"
    and "cpp_abstract (ptype ast_param)"
    and "\<not> cpp_toptr_conversion (ptype ast_param)"
    and "cpp_touniqptr_conversion (ptype ast_param)"
  shows "CreateInputParameter au func_name ast_param arg args =
           (if endswith (cpp_type (ptype ast_param)) ''*''
            then Inr (''::std::unique_ptr<'' @ butlast (cpp_type (ptype ast_param)) @ ''> ''
                        @ arg @ '';'',
                      args @ [arg @ ''.get()''])
            else Inl (TypeError (''Can't convert '' @ lang_type (ptype ast_param) @ '' to ''
                        @ cpp_type (ptype ast_param))))"
  using assms by (simp add: CreateInputParameter_def Let_def)

theorem CreateInputParameter_abstract_raw_pointer_witness:
  "cpp_type (ptype abstract_ptr_param) \<noteq> []
   \<and> cpp_raw_pointer (ptype abstract_ptr_param)
   \<and> cpp_abstract (ptype abstract_ptr_param)
   \<and> \<not> cpp_toptr_conversion (ptype abstract_ptr_param)
   \<and> cpp_touniqptr_conversion (ptype abstract_ptr_param)
   \<and> endswith (cpp_type (ptype abstract_ptr_param)) ''*''
   \<and> CreateInputParameter sample_astutils ''f line 7'' abstract_ptr_param ''arg1'' [''arg0'']
       = Inr (''::std::unique_ptr<::Base > arg1;'', [''arg0'', ''arg1.get()''])"
  using CreateInputParameter_abstract_raw_pointer
          [of abstract_ptr_param sample_astutils "''f line 7''" "''arg1''" "[''arg0'']"]
  by (simp add: abstract_ptr_param_def endswith_def)

text \<open>
  C6 as stated fails on a raw pointer to an abstract class whose spelling ends in \<^verbatim>\<open>const\<close>:
  with no conversion to a pointer and a conversion to \<^verbatim>\<open>unique_ptr\<close>, no local is declared
  and the \<^verbatim>\<open>TypeError\<close> is raised.
\<close>

theorem CreateInputParameter_raw_pointer_const:
  "cpp_raw_pointer (ptype const_ptr_param)
   \<and> cpp_abstract (ptype const_ptr_param)
   \<and> \<not> cpp_toptr_conversion (ptype const_ptr_param)
   \<and> cpp_touniqptr_conversion (ptype const_ptr_param)
   \<and> cpp_type (ptype const_ptr_param) = ''::Base *const''
   \<and> CreateInputParameter sample_astutils ''f line 7'' const_ptr_param ''arg1'' [''arg0'']
       = Inl (TypeError ''Can't convert Base to ::Base *const'')"
  by (simp add: const_ptr_param_def CreateInputParameter_def endswith_def startswith_def)

section \<open>The virtual redirector of an abstract method\<close>

text \<open>
  C7. For an overridable method of an abstract class, the override emitted by
  \<^verbatim>\<open>VirtualFunctionCall\<close> looks the attribute up on the Python object and, in the branch
  taken when the lookup finds nothing, holds exactly the call of \<^verbatim>\<open>Py_FatalError\<close> with a
  message naming the class and the method, followed by \<^verbatim>\<open>abort()\<close>: no exception is set and
  nothing is returned there.
\<close>

theorem VirtualFunctionCall_abstract:
  "VirtualFunctionCall au fname f pyname True postconvinit =
     (let ret = FuncReturnType au f True;
          moved = TupleStr au
                    (map (\<lambda>i. ''std::move(a'' @ str_nat i @ '')'')
                       [0..<nat (int (length (params f)) + int (length (returns f))
                                  - (if ret = ''void'' then 0 else 1))])
      in [[],
          I @ ret @ '' '' @ fname @ FuncParamStr au f ''a'' True
            @ (if cpp_const_method f then '' const'' else [])
            @ (if cpp_noexcept f then '' noexcept'' else []) @ '' override {'',
          I @ I @ ''auto f = ::clif::SafeGetAttrString(pythis.get(), C(\"'' @ native (name f)
            @ ''\"));'',
          I @ I @ ''if (f.get()) {'',
          I @ I @ I @ (if ret = ''void'' then [] else ''return '') @ ''::clif::callback::Func<''
            @ join '', '' (ret # map (Type au) (params f) @ FuncReturns au f)
            @ ''>(f.get())'' @ moved @ '';'',
          I @ I @ ''} else {'',
          I @ I @ I @ ''Py_FatalError(\"@virtual method '' @ pyname @ ''.'' @ native (name f)
            @ '' has no Python implementation.\");'',
          I @ I @ I @ ''abort();'',
          I @ I @ ''}'',
          I @ ''}''])"
  by (simp add: VirtualFunctionCall_def Let_def)

theorem VirtualFunctionCall_abstract_witness:
  "VirtualFunctionCall sample_astutils ''f'' (func_of [int_param ''x'' []] []) ''Base'' True () =
     [[],
      ''  void f() override {'',
      ''    auto f = ::clif::SafeGetAttrString(pythis.get(), C(\"f\"));'',
      ''    if (f.get()) {'',
      ''      ::clif::callback::Func<void, int>(f.get())(std::move(a0));'',
      ''    } else {'',
      ''      Py_FatalError(\"@virtual method Base.f has no Python implementation.\");'',
      ''      abort();'',
      ''    }'',
      ''  }'']"
  using VirtualFunctionCall_abstract
          [of sample_astutils "''f''" "func_of [int_param ''x'' []] []" "''Base''" "()"]
  by (simp add: sample_astutils_def func_of_def int_param_def int_type_def I_def
        str_nat.simps digit_def)

section \<open>The header lines and the caller's list\<close>

text \<open>
  C9, as the code has it. When the first element of \<^verbatim>\<open>hdr_files\<close> is the sentinel
  \<^verbatim>\<open>PYTHON\<close>, the exhausted generator has deleted that first element and nothing else: the
  caller's list is its former tail. For every other list \<^verbatim>\<open>hdr_files\<close> is unchanged.
\<close>

theorem Headlines_hdr_files:
  "snd (Headlines PY3OUTPUT src_file hdr_files sys_hdr_files open_ns) =
     (if take 1 hdr_files = [''PYTHON''] then tl hdr_files else hdr_files)"
  by (simp add: Headlines_def Let_def drop_Suc)

theorem Headlines_hdr_files_witness:
  "snd (Headlines None ''a.h'' [''PYTHON'', ''b.h''] [] None) = [''b.h'']
   \<and> snd (Headlines None ''a.h'' [''b.h'', ''PYTHON''] [] None) = [''b.h'', ''PYTHON'']"
  using Headlines_hdr_files [of None "''a.h''" "[''PYTHON'', ''b.h'']" "[]" None]
        Headlines_hdr_files [of None "''a.h''" "[''b.h'', ''PYTHON'']" "[]" None]
  by simp

text \<open>
  C9 as stated fails: the sentinel can stay in the list. Only the first element is deleted, so a list that holds
  \<^verbatim>\<open>PYTHON\<close> twice still holds it after the generation.
\<close>

theorem Headlines_sentinel_remains:
  "take 1 [''PYTHON'', ''PYTHON''] = [''PYTHON'']
   \<and> ''PYTHON'' \<in> set (snd (Headlines None ''a.h'' [''PYTHON'', ''PYTHON''] [] None))"
  by (simp add: Headlines_def Let_def)

section \<open>The context-manager marker\<close>

lemma FunctionCall_convert_head:
  "\<exists>rest. fst (FunctionCall_convert au pyname wrapper doc func_ast lineno prepend_self)
            = FunctionCall_head wrapper doc func_ast @ rest"
  by (simp add: FunctionCall_convert_def Let_def)

lemma gen_bind_fst: "\<exists>rest. fst (gen_bind m f) = fst m @ rest"
  by (cases m, cases "snd m") (auto simp: gen_bind_def)

lemma FunctionCall_proceeds:
  assumes "FunctionCall_ctxmgr pyname = ([], Inr cp)"
  shows "\<exists>rest. fst (FunctionCall au Initializer pyname wrapper doc catch call postcall_init
                      typepostconversion func_ast lineno prepend_self)
                 = FunctionCall_head wrapper doc func_ast @ rest"
proof -
  obtain r1 where "fst (FunctionCall_convert au (snd cp) wrapper doc func_ast lineno prepend_self)
      = FunctionCall_head wrapper doc func_ast @ r1"
    using FunctionCall_convert_head by blast
  moreover obtain r2 where "fst (FunctionCall_inputs au (snd cp) wrapper doc func_ast lineno prepend_self)
      = fst (FunctionCall_convert au (snd cp) wrapper doc func_ast lineno prepend_self) @ r2"
    unfolding FunctionCall_inputs_def using gen_bind_fst by blast
  moreover obtain r3 where "fst (FunctionCall au Initializer pyname wrapper doc catch call
      postcall_init typepostconversion func_ast lineno prepend_self)
      = fst (FunctionCall_inputs au (snd cp) wrapper doc func_ast lineno prepend_self) @ r3"
    unfolding FunctionCall_def using assms gen_bind_fst by simp blast
  ultimately show ?thesis by simp
qed

text \<open>
  C10. For a name that ends in the marker \<^verbatim>\<open>@\<close>, \<^verbatim>\<open>FunctionCall\<close> goes on to emit the wrapper
  (its output begins with the signature comment and the entry point) when the name is
  \<^verbatim>\<open>__enter__@\<close> or \<^verbatim>\<open>__exit__@\<close>; for every other such name the assertion fails before any
  line is yielded.
\<close>

theorem FunctionCall_marker_assertion:
  assumes "endswith pyname ''@''"
  shows "if pyname = ''__enter__@'' \<or> pyname = ''__exit__@''
         then \<exists>rest. fst (FunctionCall au Initializer pyname wrapper doc catch call postcall_init
                             typepostconversion func_ast lineno prepend_self)
                        = FunctionCall_head wrapper doc func_ast @ rest
         else FunctionCall au Initializer pyname wrapper doc catch call postcall_init
                typepostconversion func_ast lineno prepend_self
              = ([], Inl (AssertionError (''Invalid context manager name '' @ pyname)))"
proof (cases "pyname = ''__enter__@'' \<or> pyname = ''__exit__@''")
  case True
  then have "FunctionCall_ctxmgr pyname = ([], Inr (Some pyname, rstrip ''@'' pyname))"
    by (auto simp: FunctionCall_ctxmgr_def gen_return_def endswith_def)
  from FunctionCall_proceeds [OF this] True show ?thesis by simp
next
  case False
  with assms have "FunctionCall_ctxmgr pyname
      = ([], Inl (AssertionError (''Invalid context manager name '' @ pyname)))"
    by (simp add: FunctionCall_ctxmgr_def raise_def)
  with False show ?thesis by (simp add: FunctionCall_def)
qed

theorem FunctionCall_marker_assertion_witness:
  "endswith ''__foo__@'' ''@''
   \<and> FunctionCall sample_astutils sample_Initializer ''__foo__@'' ''wrap_foo'' ''void F()'' False
       (CallStr ''F'') [] Map.empty (func_of [] []) 7 None
     = ([], Inl (AssertionError ''Invalid context manager name __foo__@''))
   \<and> endswith ''__exit__@'' ''@''
   \<and> (\<exists>rest. fst (FunctionCall sample_astutils sample_Initializer ''__exit__@'' ''wrap_exit''
                     ''void F()'' False (CallStr ''F'') [] Map.empty (func_of [] []) 7 None)
               = [[], ''// void F()'', ''static PyObject* wrap_exit(PyObject* self) {''] @ rest)"
  using FunctionCall_marker_assertion
          [of "''__foo__@''" sample_astutils sample_Initializer "''wrap_foo''" "''void F()''" False
              "CallStr ''F''" "[]" Map.empty "func_of [] []" 7 None]
        FunctionCall_marker_assertion
          [of "''__exit__@''" sample_astutils sample_Initializer "''wrap_exit''" "''void F()''" False
              "CallStr ''F''" "[]" Map.empty "func_of [] []" 7 None]
  by (simp add: endswith_def FunctionCall_head_def func_of_def)

section \<open>The constructor trampoline\<close>

text \<open>
  C8, as the code has it. For a class whose constructor policy is \<^verbatim>\<open>DEF\<close>, and a slot dict
  that has its \<^verbatim>\<open>tp_flags\<close>, \<^verbatim>\<open>TypeObject\<close> runs to its end and the trampoline \<^verbatim>\<open>_ctor\<close> it
  emits is: for an abstract class, first the guard that returns
  \<^verbatim>\<open>Clif_PyType_Inconstructible\<close> when the object's type is the wrapper type itself; then, for
  every class, the test that rejects a call with positional or keyword arguments by setting a
  \<^verbatim>\<open>TypeError\<close> and returning \<^verbatim>\<open>-1\<close>; the default construction of the native object into the
  wrapper (bound back to the Python object when a replacement class is given); \<^verbatim>\<open>return 0\<close>.
  The allocator follows it. So a class that is not abstract is default-constructed by every
  call without arguments, and an abstract class only through a derived type.
\<close>

theorem TypeObject_default_ctor:
  assumes "tp_slots ''tp_flags'' = Some flags"
  shows "\<exists>pre. fst (TypeObject tp_slots slotgen pyname wname fqclassname (Some ''DEF'') abstract
                      async_dtor subst_cpp_ptr) =
           (pre
            @ [''static int _ctor(PyObject* self, PyObject* args, PyObject* kw) {'']
            @ (if abstract then
                 [I @ ''if (Py_TYPE(self) == &'' @ wname @ ''_Type) {'',
                  I @ I @ ''return Clif_PyType_Inconstructible(self, args, kw);'',
                  I @ ''}'']
               else [])
            @ [I @ ''if ((args && PyTuple_GET_SIZE(args) != 0) || (kw && PyDict_Size(kw) != 0)) {'',
               I @ I @ ''PyErr_SetString(PyExc_TypeError, \"'' @ pyname @ '' takes no arguments\");'',
               I @ I @ ''return -1;'',
               I @ ''}'',
               I @ ''reinterpret_cast<'' @ wname @ ''*>(self)->cpp = ::clif::MakeShared<''
                 @ (if subst_cpp_ptr = [] then fqclassname else subst_cpp_ptr) @ ''>();'']
            @ (if subst_cpp_ptr = [] then []
               else [I @ ''reinterpret_cast<'' @ wname @ ''*>(self)->cpp->::clif::PyObj::Init(self);''])
            @ [I @ ''return 0;'',
               ''}'',
               [],
               ''static PyObject* _allocator(PyTypeObject* type, Py_ssize_t nitems) {'',
               I @ ''assert(nitems == 0);'',
               I @ ''PyObject* self = reinterpret_cast<PyObject*>(new '' @ wname @ '');'',
               I @ ''return PyObject_Init(self, &'' @ wname @ ''_Type);'',
               ''}''],
            Inr ())"
proof -
  have slots: "TypeObject_slots tp_slots wname (Some ''DEF'') ''tp_flags'' = Some flags"
    using assms by (simp add: TypeObject_slots_def)
  have ctor: "truthy (Some ''DEF'')"
    by (simp add: truthy_def)
  show ?thesis
    unfolding TypeObject_def Let_def using slots
    by (simp add: TypeObject_ctor_def ctor Let_def)
qed

theorem TypeObject_default_ctor_witness:
  "[''tp_flags'' \<mapsto> Strs [''Py_TPFLAGS_DEFAULT'']] ''tp_flags'' = Some (Strs [''Py_TPFLAGS_DEFAULT''])
   \<and> (\<exists>pre. fst (TypeObject [''tp_flags'' \<mapsto> Strs [''Py_TPFLAGS_DEFAULT'']] (\<lambda>slots. []) ''K''
                    ''wrapK'' ''::ns::K'' (Some ''DEF'') False False []) =
         (pre
          @ [''static int _ctor(PyObject* self, PyObject* args, PyObject* kw) {'',
             ''  if ((args && PyTuple_GET_SIZE(args) != 0) || (kw && PyDict_Size(kw) != 0)) {'',
             ''    PyErr_SetString(PyExc_TypeError, \"K takes no arguments\");'',
             ''    return -1;'',
             ''  }'',
             ''  reinterpret_cast<wrapK*>(self)->cpp = ::clif::MakeShared<::ns::K>();'',
             ''  return 0;'',
             ''}'',
             [],
             ''static PyObject* _allocator(PyTypeObject* type, Py_ssize_t nitems) {'',
             ''  assert(nitems == 0);'',
             ''  PyObject* self = reinterpret_cast<PyObject*>(new wrapK);'',
             ''  return PyObject_Init(self, &wrapK_Type);'',
             ''}''],
          Inr ()))
   \<and> (\<exists>pre. fst (TypeObject [''tp_flags'' \<mapsto> Strs [''Py_TPFLAGS_DEFAULT'']] (\<lambda>slots. []) ''K''
                    ''wrapK'' ''::ns::K'' (Some ''DEF'') True False ''::ns::K_sub'') =
         (pre
          @ [''static int _ctor(PyObject* self, PyObject* args, PyObject* kw) {'',
             ''  if (Py_TYPE(self) == &wrapK_Type) {'',
             ''    return Clif_PyType_Inconstructible(self, args, kw);'',
             ''  }'',
             ''  if ((args && PyTuple_GET_SIZE(args) != 0) || (kw && PyDict_Size(kw) != 0)) {'',
             ''    PyErr_SetString(PyExc_TypeError, \"K takes no arguments\");'',
             ''    return -1;'',
             ''  }'',
             ''  reinterpret_cast<wrapK*>(self)->cpp = ::clif::MakeShared<::ns::K_sub>();'',
             ''  reinterpret_cast<wrapK*>(self)->cpp->::clif::PyObj::Init(self);'',
             ''  return 0;'',
             ''}'',
             [],
             ''static PyObject* _allocator(PyTypeObject* type, Py_ssize_t nitems) {'',
             ''  assert(nitems == 0);'',
             ''  PyObject* self = reinterpret_cast<PyObject*>(new wrapK);'',
             ''  return PyObject_Init(self, &wrapK_Type);'',
             ''}''],
          Inr ()))"
  using TypeObject_default_ctor
          [of "[''tp_flags'' \<mapsto> Strs [''Py_TPFLAGS_DEFAULT'']]" "Strs [''Py_TPFLAGS_DEFAULT'']"
              "\<lambda>slots. []" "''K''" "''wrapK''" "''::ns::K''" False False "[]"]
        TypeObject_default_ctor
          [of "[''tp_flags'' \<mapsto> Strs [''Py_TPFLAGS_DEFAULT'']]" "Strs [''Py_TPFLAGS_DEFAULT'']"
              "\<lambda>slots. []" "''K''" "''wrapK''" "''::ns::K''" True False "''::ns::K_sub''"]
  by (simp add: I_def)

text \<open>
  C8 as stated fails on an abstract class with the policy \<^verbatim>\<open>DEF\<close>: the first statement of
  its trampoline returns \<^verbatim>\<open>Clif_PyType_Inconstructible\<close> for an object of the wrapper type
  itself, before the arguments are looked at, so a call without arguments on that type does
  not reach the default construction.
\<close>

theorem TypeObject_abstract_guard_first:
  "fst (TypeObject [''tp_flags'' \<mapsto> Strs [''Py_TPFLAGS_DEFAULT'']] (\<lambda>slots. []) ''K''
          ''wrapK'' ''::ns::K'' (Some ''DEF'') True False []) =
     ([[],
       ''// K __new__'',
       ''static PyObject* _allocator(PyTypeObject* type, Py_ssize_t nitems);'',
       ''// K __init__'',
       ''static int _ctor(PyObject* self, PyObject* args, PyObject* kw);'',
       [],
       ''static void _dtor(void* self) {'',
       ''  delete reinterpret_cast<wrapK*>(self);'',
       ''}'',
       [],
       ''PyTypeObject wrapK_Type = {'',
       ''  PyVarObject_HEAD_INIT(&PyType_Type, 0)'',
       ''};'',
       [],
       ''static int _ctor(PyObject* self, PyObject* args, PyObject* kw) {'',
       ''  if (Py_TYPE(self) == &wrapK_Type) {'',
       ''    return Clif_PyType_Inconstructible(self, args, kw);'',
       ''  }'',
       ''  if ((args && PyTuple_GET_SIZE(args) != 0) || (kw && PyDict_Size(kw) != 0)) {'',
       ''    PyErr_SetString(PyExc_TypeError, \"K takes no arguments\");'',
       ''    return -1;'',
       ''  }'',
       ''  reinterpret_cast<wrapK*>(self)->cpp = ::clif::MakeShared<::ns::K>();'',
       ''  return 0;'',
       ''}'',
       [],
       ''static PyObject* _allocator(PyTypeObject* type, Py_ssize_t nitems) {'',
       ''  assert(nitems == 0);'',
       ''  PyObject* self = reinterpret_cast<PyObject*>(new wrapK);'',
       ''  return PyObject_Init(self, &wrapK_Type);'',
       ''}''],
      Inr ())"
  by (simp add: TypeObject_def TypeObject_slots_def TypeObject_ctor_def truthy_def joinable_def
        I_def Let_def)

section \<open>The wrapper of a generation that ends without an exception\<close>

lemma FunctionCall_ok:
  assumes "FunctionCall au Initializer pyname wrapper doc catch call postcall_init
             typepostconversion func_ast lineno prepend_self = (lines, Inr ())"
  obtains cp pre args l2 cmd l4 optional_ret0 where
    "FunctionCall_ctxmgr pyname = ([], Inr cp)"
    and "FunctionCall_inputs au (snd cp) wrapper doc func_ast lineno prepend_self = (pre, Inr args)"
    and "FunctionCall_callcmd call = (l2, Inr cmd)"
    and "FunctionCall_ret0 au catch func_ast = (l4, Inr optional_ret0)"
    and "lines = pre @ l2 @ async_begin func_ast @ l4
           @ FunctionCall_native au catch cmd args func_ast
           @ FunctionCall_postcall au postcall_init catch func_ast
           @ FunctionCall_return Initializer typepostconversion func_ast (fst cp) optional_ret0"
proof -
  from assms obtain l0 cp r0 where c0: "FunctionCall_ctxmgr pyname = (l0, Inr cp)"
    and c1: "gen_bind (FunctionCall_inputs au (snd cp) wrapper doc func_ast lineno prepend_self)
       (\<lambda>args. gen_bind (FunctionCall_callcmd call)
       (\<lambda>call'. gen_bind (yield (async_begin func_ast))
       (\<lambda>_. gen_bind (FunctionCall_ret0 au catch func_ast)
       (\<lambda>optional_ret0.
          yield (FunctionCall_native au catch call' args func_ast
                 @ FunctionCall_postcall au postcall_init catch func_ast
                 @ FunctionCall_return Initializer typepostconversion func_ast (fst cp)
                     optional_ret0))))) = (r0, Inr ())"
    and e0: "lines = l0 @ r0"
    unfolding FunctionCall_def by (rule gen_bind_ok)
  have l0: "l0 = []"
    using c0 by (auto simp: FunctionCall_ctxmgr_def gen_return_def raise_def split: if_splits)
  from c1 obtain pre args r1 where c2:
      "FunctionCall_inputs au (snd cp) wrapper doc func_ast lineno prepend_self = (pre, Inr args)"
    and c3: "gen_bind (FunctionCall_callcmd call)
       (\<lambda>call'. gen_bind (yield (async_begin func_ast))
       (\<lambda>_. gen_bind (FunctionCall_ret0 au catch func_ast)
       (\<lambda>optional_ret0.
          yield (FunctionCall_native au catch call' args func_ast
                 @ FunctionCall_postcall au postcall_init catch func_ast
                 @ FunctionCall_return Initializer typepostconversion func_ast (fst cp)
                     optional_ret0)))) = (r1, Inr ())"
    and e1: "r0 = pre @ r1"
    by (rule gen_bind_ok)
  from c3 obtain l2 cmd r2 where c4: "FunctionCall_callcmd call = (l2, Inr cmd)"
    and c5: "gen_bind (yield (async_begin func_ast))
       (\<lambda>_. gen_bind (FunctionCall_ret0 au catch func_ast)
       (\<lambda>optional_ret0.
          yield (FunctionCall_native au catch cmd args func_ast
                 @ FunctionCall_postcall au postcall_init catch func_ast
                 @ FunctionCall_return Initializer typepostconversion func_ast (fst cp)
                     optional_ret0))) = (r2, Inr ())"
    and e2: "r1 = l2 @ r2"
    by (rule gen_bind_ok)
  from c5 obtain l3 u r3 where c6: "yield (async_begin func_ast) = (l3, Inr u)"
    and c7: "gen_bind (FunctionCall_ret0 au catch func_ast)
       (\<lambda>optional_ret0.
          yield (FunctionCall_native au catch cmd args func_ast
                 @ FunctionCall_postcall au postcall_init catch func_ast
                 @ FunctionCall_return Initializer typepostconversion func_ast (fst cp)
                     optional_ret0)) = (r3, Inr ())"
    and e3: "r2 = l3 @ r3"
    by (rule gen_bind_ok)
  from c6 have l3: "l3 = async_begin func_ast"
    by (simp add: yield_def)
  from c7 obtain l4 optional_ret0 r4 where c8: "FunctionCall_ret0 au catch func_ast = (l4, Inr optional_ret0)"
    and c9: "yield (FunctionCall_native au catch cmd args func_ast
                 @ FunctionCall_postcall au postcall_init catch func_ast
                 @ FunctionCall_return Initializer typepostconversion func_ast (fst cp)
                     optional_ret0) = (r4, Inr ())"
    and e4: "r3 = l4 @ r4"
    by (rule gen_bind_ok)
  from c9 have r4: "r4 = FunctionCall_native au catch cmd args func_ast
                 @ FunctionCall_postcall au postcall_init catch func_ast
                 @ FunctionCall_return Initializer typepostconversion func_ast (fst cp)
                     optional_ret0"
    by (simp add: yield_def)
  show ?thesis
    using that [OF c0 [unfolded l0] c2 c4 c8] e0 e1 e2 e3 e4 l0 l3 r4 by simp
qed

lemma FunctionCall_callcmd_ok:
  assumes "FunctionCall_callcmd call = (l2, Inr cmd)"
  shows "l2 = (I @ ''// Call actual C++ method.'')
              # (case call of CallStr s \<Rightarrow> [] | CallList ss \<Rightarrow> map (\<lambda>s. I @ s) (butlast ss))"
    and "cmd = (case call of CallStr s \<Rightarrow> s | CallList ss \<Rightarrow> last ss)"
  using assms
  by (auto simp: FunctionCall_callcmd_def gen_return_def raise_def split: call_cmd.splits if_splits)

lemma minargs_of_trailing:
  assumes "params func_ast = required @ optional"
    and "\<forall>p\<in>set required. default_value p = []"
    and "\<forall>p\<in>set optional. default_value p \<noteq> []"
  shows "minargs_of func_ast = length required"
proof -
  have "filter (\<lambda>p. default_value p = []) required = required"
    using assms(2) by (simp add: filter_id_conv)
  moreover have "filter (\<lambda>p. default_value p = []) optional = []"
    using assms(3) by (simp add: filter_empty_conv)
  ultimately show ?thesis
    using assms(1) by (simp add: minargs_of_def)
qed

section \<open>One branch for every number of arguments\<close>

text \<open>
  C1. Let the parameters be \<open>minargs\<close> required ones followed by \<open>k \<ge> 1\<close> optional ones, and
  let the generation end without an exception. Then the wrapper holds the switch over the
  number \<^verbatim>\<open>nargs\<close> of arguments passed in, with exactly \<open>k + 1\<close> branches, one for each \<open>n\<close> from
  \<open>minargs\<close> to \<open>minargs + k\<close> in order, and the branch of \<open>n\<close> calls the native function with the
  first \<open>n\<close> of the call-site expressions accumulated in \<^verbatim>\<open>params\<close> before the call.
\<close>

theorem FunctionCall_arity_switch:
  assumes "params func_ast = required @ optional"
    and "\<forall>p\<in>set required. default_value p = []"
    and "\<forall>p\<in>set optional. default_value p \<noteq> []"
    and "optional \<noteq> []"
    and "FunctionCall au Initializer pyname wrapper doc catch call postcall_init
           typepostconversion func_ast lineno prepend_self = (lines, Inr ())"
  shows "\<exists>cp pre args mid post.
           FunctionCall_ctxmgr pyname = ([], Inr cp)
         \<and> FunctionCall_inputs au (snd cp) wrapper doc func_ast lineno prepend_self
             = (pre, Inr args)
         \<and> lines = pre @ mid
             @ [I @ ''switch (nargs) {'']
             @ concat (map (\<lambda>n. [I @ ''case '' @ str_nat n @ '':'',
                                  I @ I
                                  @ (if FuncReturnType au func_ast False = ''void'' then []
                                     else ''ret0 = '')
                                  @ (case call of CallStr s \<Rightarrow> s | CallList ss \<Rightarrow> last ss)
                                  @ TupleStr au (take n args) @ ''; break;''])
                        [length required..<length required + length optional + 1])
             @ [I @ ''}'']
             @ post
         \<and> length [length required..<length required + length optional + 1]
             = length optional + 1"
proof -
  from assms(5) obtain cp pre args l2 cmd l4 optional_ret0 where
    c: "FunctionCall_ctxmgr pyname = ([], Inr cp)"
    and i: "FunctionCall_inputs au (snd cp) wrapper doc func_ast lineno prepend_self = (pre, Inr args)"
    and cc: "FunctionCall_callcmd call = (l2, Inr cmd)"
    and l: "lines = pre @ l2 @ async_begin func_ast @ l4
           @ FunctionCall_native au catch cmd args func_ast
           @ FunctionCall_postcall au postcall_init catch func_ast
           @ FunctionCall_return Initializer typepostconversion func_ast (fst cp) optional_ret0"
    by (rule FunctionCall_ok)
  have m: "minargs_of func_ast = length required"
    using assms(1-3) by (rule minargs_of_trailing)
  have n: "length (params func_ast) = length required + length optional"
    using assms(1) by simp
  have lt: "length required < length required + length optional"
    using assms(4) by simp
  have cmd: "cmd = (case call of CallStr s \<Rightarrow> s | CallList ss \<Rightarrow> last ss)"
    using cc by (rule FunctionCall_callcmd_ok)
  have native: "FunctionCall_native au catch
        (case call of CallStr s \<Rightarrow> s | CallList ss \<Rightarrow> last ss) args func_ast =
      (if catch then GenExceptionTry else [])
      @ [I @ ''switch (nargs) {'']
      @ concat (map (\<lambda>n. [I @ ''case '' @ str_nat n @ '':'',
                           I @ I
                           @ (if FuncReturnType au func_ast False = ''void'' then []
                              else ''ret0 = '')
                           @ (case call of CallStr s \<Rightarrow> s | CallList ss \<Rightarrow> last ss)
                           @ TupleStr au (take n args) @ ''; break;''])
                 [length required..<length required + length optional + 1])
      @ [I @ ''}'']
      @ (if catch then GenExceptionCatch else [])"
    using lt by (simp add: FunctionCall_native_def switch_nargs_def m n Let_def)
  let ?mid = "l2 @ async_begin func_ast @ l4 @ (if catch then GenExceptionTry else [])"
  let ?post = "(if catch then GenExceptionCatch else [])
      @ FunctionCall_postcall au postcall_init catch func_ast
      @ FunctionCall_return Initializer typepostconversion func_ast (fst cp) optional_ret0"
  have "lines = pre @ ?mid
             @ [I @ ''switch (nargs) {'']
             @ concat (map (\<lambda>n. [I @ ''case '' @ str_nat n @ '':'',
                                  I @ I
                                  @ (if FuncReturnType au func_ast False = ''void'' then []
                                     else ''ret0 = '')
                                  @ (case call of CallStr s \<Rightarrow> s | CallList ss \<Rightarrow> last ss)
                                  @ TupleStr au (take n args) @ ''; break;''])
                        [length required..<length required + length optional + 1])
             @ [I @ ''}'']
             @ ?post"
    unfolding l [unfolded cmd] native by simp
  with c i show ?thesis
    by (intro exI [of _ cp] exI [of _ pre] exI [of _ args] exI [of _ ?mid] exI [of _ ?post]) simp
qed

text \<open>The equations that run the generator on a concrete input.\<close>

lemmas run_defs =
  FunctionCall_def FunctionCall_ctxmgr_def FunctionCall_inputs_def FunctionCall_convert_def
  FunctionCall_head_def FunctionCall_self_def FunctionCall_parse_def minargs_of_def
  convert_param_def convert_lines_def cvt_line_def yield_param_def CreateInputParameter_def
  FunctionCall_retdecl_def is_extra_return_def FunctionCall_callcmd_def async_begin_def
  async_end_def FunctionCall_ret0_def FunctionCall_native_def switch_nargs_def
  FunctionCall_postcall_def FunctionCall_return_def tuple_item_def GenExceptionTry_def
  GenExceptionCatch_def GenExceptionRaise_def sample_astutils_def sample_Initializer_def
  func_of_def int_param_def int_type_def endswith_def startswith_def rstrip_def str_nat.simps
  digit_def str_int_def I_def yield_def gen_return_def raise_def Let_def

theorem FunctionCall_arity_switch_witness:
  "params (func_of [int_param ''a'' [], int_param ''b'' [], int_param ''c'' ''0''] [int_param ''r'' []])
     = [int_param ''a'' [], int_param ''b'' []] @ [int_param ''c'' ''0'']
   \<and> default_value (int_param ''a'' []) = []
   \<and> default_value (int_param ''b'' []) = []
   \<and> default_value (int_param ''c'' ''0'') \<noteq> []
   \<and> snd (FunctionCall sample_astutils sample_Initializer ''f'' ''wrap_f'' ''int F(int, int, int)''
            False (CallStr ''F'') [] Map.empty
            (func_of [int_param ''a'' [], int_param ''b'' [], int_param ''c'' ''0'']
               [int_param ''r'' []]) 7 None) = Inr ()
   \<and> (\<exists>pre post.
         fst (FunctionCall sample_astutils sample_Initializer ''f'' ''wrap_f''
                ''int F(int, int, int)'' False (CallStr ''F'') [] Map.empty
                (func_of [int_param ''a'' [], int_param ''b'' [], int_param ''c'' ''0'']
                   [int_param ''r'' []]) 7 None)
         = pre
           @ [''  switch (nargs) {'',
              ''  case 2:'',
              ''    ret0 = F(std::move(arg1), std::move(arg2)); break;'',
              ''  case 3:'',
              ''    ret0 = F(std::move(arg1), std::move(arg2), std::move(arg3)); break;'',
              ''  }'']
           @ post)"
proof -
  let ?f = "func_of [int_param ''a'' [], int_param ''b'' [], int_param ''c'' ''0''] [int_param ''r'' []]"
  let ?run = "FunctionCall sample_astutils sample_Initializer ''f'' ''wrap_f''
                ''int F(int, int, int)'' False (CallStr ''F'') [] Map.empty ?f 7 None"
  have shape: "params ?f = [int_param ''a'' [], int_param ''b'' []] @ [int_param ''c'' ''0'']"
    by (simp add: func_of_def)
  have req: "\<forall>p\<in>set [int_param ''a'' [], int_param ''b'' []]. default_value p = []"
    by (simp add: int_param_def)
  have opt: "\<forall>p\<in>set [int_param ''c'' ''0'']. default_value p \<noteq> []"
    by (simp add: int_param_def)
  have ok: "snd ?run = Inr ()"
    by (simp add: run_defs)
  then have run: "?run = (fst ?run, Inr ())"
    by (simp add: prod_eq_iff)
  have inputs: "snd (FunctionCall_inputs sample_astutils ''f'' ''wrap_f'' ''int F(int, int, int)'' ?f 7 None)
      = Inr [''std::move(arg1)'', ''std::move(arg2)'', ''std::move(arg3)'']"
    by (simp add: run_defs)
  from FunctionCall_arity_switch [OF shape req opt _ run]
  obtain cp pre args mid post where
    c: "FunctionCall_ctxmgr ''f'' = ([], Inr cp)"
    and i: "FunctionCall_inputs sample_astutils (snd cp) ''wrap_f'' ''int F(int, int, int)'' ?f 7 None
        = (pre, Inr args)"
    and l: "fst ?run = pre @ mid
             @ [I @ ''switch (nargs) {'']
             @ concat (map (\<lambda>n. [I @ ''case '' @ str_nat n @ '':'',
                                  I @ I
                                  @ (if FuncReturnType sample_astutils ?f False = ''void'' then []
                                     else ''ret0 = '')
                                  @ (case CallStr ''F'' of CallStr s \<Rightarrow> s | CallList ss \<Rightarrow> last ss)
                                  @ TupleStr sample_astutils (take n args) @ ''; break;''])
                        [length [int_param ''a'' [], int_param ''b'' []]
                         ..<length [int_param ''a'' [], int_param ''b'' []]
                            + length [int_param ''c'' ''0''] + 1])
             @ [I @ ''}'']
             @ post"
    by auto
  from c have "snd cp = ''f''"
    by (auto simp: FunctionCall_ctxmgr_def endswith_def gen_return_def)
  with i inputs have args: "args = [''std::move(arg1)'', ''std::move(arg2)'', ''std::move(arg3)'']"
    by simp
  have upt: "[2..<4] = [2, 3::nat]"
    by (simp add: upt_rec)
  from l have "fst ?run = (pre @ mid)
           @ [''  switch (nargs) {'',
              ''  case 2:'',
              ''    ret0 = F(std::move(arg1), std::move(arg2)); break;'',
              ''  case 3:'',
              ''    ret0 = F(std::move(arg1), std::move(arg2), std::move(arg3)); break;'',
              ''  }'']
           @ post"
    unfolding args
    by (simp add: upt sample_astutils_def func_of_def int_param_def int_type_def I_def
          str_nat.simps digit_def)
  then have "\<exists>pre post. fst ?run = pre
           @ [''  switch (nargs) {'',
              ''  case 2:'',
              ''    ret0 = F(std::move(arg1), std::move(arg2)); break;'',
              ''  case 3:'',
              ''    ret0 = F(std::move(arg1), std::move(arg2), std::move(arg3)); break;'',
              ''  }'']
           @ post"
    by blast
  with shape ok show ?thesis
    by (simp add: int_param_def)
qed

section \<open>Several return values\<close>

lemma FunctionCall_return_tuple:
  assumes "1 < length (returns func_ast)"
  shows "\<exists>post. FunctionCall_return Initializer typepostconversion func_ast ctxmgr optional_ret0
      = [I @ ''// Convert return values to Python.'',
         I @ ''PyObject* p, * result_tuple = PyTuple_New('' @ str_nat (length (returns func_ast))
           @ '');'',
         I @ ''if (result_tuple == nullptr) return nullptr;'']
        @ concat (map (tuple_item Initializer typepostconversion func_ast)
                    [0..<length (returns func_ast)])
        @ post"
  unfolding FunctionCall_return_def Let_def
  by (simp only: assms simp_thms if_True append_assoc) (rule exI, rule refl)

text \<open>
  C3. When the callable has two or more return values and the generation ends without an
  exception, the wrapper creates a tuple of exactly \<open>nret\<close> elements and then, for each
  \<open>i\<close> from \<open>0\<close> to \<open>nret - 1\<close> in order, converts \<^verbatim>\<open>ret\<close>\<open>i\<close>; when that conversion gives null it
  releases the tuple and returns null, and otherwise it stores the object at index \<open>i\<close>.
\<close>

theorem FunctionCall_result_tuple:
  assumes "1 < length (returns func_ast)"
    and "FunctionCall au Initializer pyname wrapper doc catch call postcall_init
           typepostconversion func_ast lineno prepend_self = (lines, Inr ())"
  shows "\<exists>pre post.
           lines = pre
             @ [I @ ''// Convert return values to Python.'',
                I @ ''PyObject* p, * result_tuple = PyTuple_New(''
                  @ str_nat (length (returns func_ast)) @ '');'',
                I @ ''if (result_tuple == nullptr) return nullptr;'']
             @ concat (map (\<lambda>i. [I @ ''if ((p=Clif_PyObjFrom(std::move(ret'' @ str_nat i @ ''), ''
                                    @ Initializer (ptype (returns func_ast ! i)) typepostconversion
                                    @ '')) == nullptr) {'',
                                  I @ I @ ''Py_DECREF(result_tuple);'',
                                  I @ I @ ''return nullptr;'',
                                  I @ ''}'',
                                  I @ ''PyTuple_SET_ITEM(result_tuple, '' @ str_nat i @ '', p);''])
                        [0..<length (returns func_ast)])
             @ post"
proof -
  from assms(2) obtain cp pre args l2 cmd l4 optional_ret0 where
    "FunctionCall_ctxmgr pyname = ([], Inr cp)"
    and "FunctionCall_inputs au (snd cp) wrapper doc func_ast lineno prepend_self = (pre, Inr args)"
    and "FunctionCall_callcmd call = (l2, Inr cmd)"
    and "FunctionCall_ret0 au catch func_ast = (l4, Inr optional_ret0)"
    and l: "lines = pre @ l2 @ async_begin func_ast @ l4
           @ FunctionCall_native au catch cmd args func_ast
           @ FunctionCall_postcall au postcall_init catch func_ast
           @ FunctionCall_return Initializer typepostconversion func_ast (fst cp) optional_ret0"
    by (rule FunctionCall_ok)
  from FunctionCall_return_tuple [OF assms(1)]
  obtain post where r:
    "FunctionCall_return Initializer typepostconversion func_ast (fst cp) optional_ret0
      = [I @ ''// Convert return values to Python.'',
         I @ ''PyObject* p, * result_tuple = PyTuple_New('' @ str_nat (length (returns func_ast))
           @ '');'',
         I @ ''if (result_tuple == nullptr) return nullptr;'']
        @ concat (map (tuple_item Initializer typepostconversion func_ast)
                    [0..<length (returns func_ast)])
        @ post"
    by blast
  let ?pre = "pre @ l2 @ async_begin func_ast @ l4
           @ FunctionCall_native au catch cmd args func_ast
           @ FunctionCall_postcall au postcall_init catch func_ast"
  have "tuple_item Initializer typepostconversion func_ast =
      (\<lambda>i. [I @ ''if ((p=Clif_PyObjFrom(std::move(ret'' @ str_nat i @ ''), ''
                 @ Initializer (ptype (returns func_ast ! i)) typepostconversion
                 @ '')) == nullptr) {'',
               I @ I @ ''Py_DECREF(result_tuple);'',
               I @ I @ ''return nullptr;'',
               I @ ''}'',
               I @ ''PyTuple_SET_ITEM(result_tuple, '' @ str_nat i @ '', p);''])"
    by (rule ext) (simp add: tuple_item_def)
  then show ?thesis
    by (intro exI [of _ ?pre] exI [of _ post]) (simp only: l r append_assoc)
qed

theorem FunctionCall_result_tuple_witness:
  "1 < length (returns (func_of [] [int_param ''r'' [], int_param ''s'' []]))
   \<and> FunctionCall sample_astutils sample_Initializer ''f'' ''wrap_f'' ''int F(int*)'' False
       (CallStr ''F'') [] Map.empty (func_of [] [int_param ''r'' [], int_param ''s'' []]) 7 None
     = ([[],
         ''// int F(int*)'',
         ''static PyObject* wrap_f(PyObject* self) {'',
         ''  int ret1{};'',
         ''  // Call actual C++ method.'',
         ''  int ret0 = F(&ret1);'',
         ''  // Convert return values to Python.'',
         ''  PyObject* p, * result_tuple = PyTuple_New(2);'',
         ''  if (result_tuple == nullptr) return nullptr;'',
         ''  if ((p=Clif_PyObjFrom(std::move(ret0), {})) == nullptr) {'',
         ''    Py_DECREF(result_tuple);'',
         ''    return nullptr;'',
         ''  }'',
         ''  PyTuple_SET_ITEM(result_tuple, 0, p);'',
         ''  if ((p=Clif_PyObjFrom(std::move(ret1), {})) == nullptr) {'',
         ''    Py_DECREF(result_tuple);'',
         ''    return nullptr;'',
         ''  }'',
         ''  PyTuple_SET_ITEM(result_tuple, 1, p);'',
         ''  return result_tuple;'',
         ''}''],
        Inr ())"
proof -
  let ?f = "func_of [] [int_param ''r'' [], int_param ''s'' []]"
  have n: "1 < length (returns ?f)"
    by (simp add: func_of_def)
  have run: "FunctionCall sample_astutils sample_Initializer ''f'' ''wrap_f'' ''int F(int*)'' False
       (CallStr ''F'') [] Map.empty ?f 7 None
     = ([[],
         ''// int F(int*)'',
         ''static PyObject* wrap_f(PyObject* self) {'',
         ''  int ret1{};'',
         ''  // Call actual C++ method.'',
         ''  int ret0 = F(&ret1);'',
         ''  // Convert return values to Python.'',
         ''  PyObject* p, * result_tuple = PyTuple_New(2);'',
         ''  if (result_tuple == nullptr) return nullptr;'',
         ''  if ((p=Clif_PyObjFrom(std::move(ret0), {})) == nullptr) {'',
         ''    Py_DECREF(result_tuple);'',
         ''    return nullptr;'',
         ''  }'',
         ''  PyTuple_SET_ITEM(result_tuple, 0, p);'',
         ''  if ((p=Clif_PyObjFrom(std::move(ret1), {})) == nullptr) {'',
         ''    Py_DECREF(result_tuple);'',
         ''    return nullptr;'',
         ''  }'',
         ''  PyTuple_SET_ITEM(result_tuple, 1, p);'',
         ''  return result_tuple;'',
         ''}''],
        Inr ())"
    by (simp add: run_defs)
  from FunctionCall_result_tuple [OF n run] show ?thesis
  proof (elim exE)
    from n run show ?thesis
      by (simp only: simp_thms)
  qed
qed

section \<open>No return value\<close>

lemma FunctionCall_ctxmgr_enter:
  assumes "FunctionCall_ctxmgr pyname = ([], Inr cp)"
  shows "(fst cp = Some ''__enter__@'') = (pyname = ''__enter__@'')"
    and "snd cp = (if endswith pyname ''@'' then rstrip ''@'' pyname else pyname)"
  using assms
  by (auto simp: FunctionCall_ctxmgr_def gen_return_def raise_def endswith_def split: if_splits)

lemma FunctionCall_inputs_no_returns:
  assumes "returns func_ast = []"
    and "FunctionCall_inputs au pyname wrapper doc func_ast lineno prepend_self = (pre, Inr args)"
  shows "FunctionCall_convert au pyname wrapper doc func_ast lineno prepend_self = (pre, Inr args)"
proof -
  have r: "\<And>a. FunctionCall_retdecl au func_ast a = ([], Inr a)"
    using assms(1) by (simp add: FunctionCall_retdecl_def)
  from assms(2) obtain l1 x l2 where
    c: "FunctionCall_convert au pyname wrapper doc func_ast lineno prepend_self = (l1, Inr x)"
    and d: "FunctionCall_retdecl au func_ast x = (l2, Inr args)"
    and e: "pre = l1 @ l2"
    unfolding FunctionCall_inputs_def by (rule gen_bind_ok)
  from d r have "l2 = []" and "x = args"
    by simp_all
  with c e show ?thesis
    by simp
qed

lemma FunctionCall_ret0_void:
  assumes "FuncReturnType au func_ast False = ''void''"
  shows "FunctionCall_ret0 au catch func_ast = ([], Inr False)"
  using assms by (simp add: FunctionCall_ret0_def gen_return_def)

lemma FunctionCall_native_void:
  assumes "FuncReturnType au func_ast False = ''void''"
  shows "FunctionCall_native au catch cmd args func_ast =
           (if catch then GenExceptionTry else [])
           @ (if minargs_of func_ast < length (params func_ast)
              then switch_nargs au cmd args (minargs_of func_ast) (length (params func_ast))
              else [(if catch then I else []) @ I @ cmd @ TupleStr au args @ '';''])
           @ (if catch then GenExceptionCatch else [])"
  using assms by (simp add: FunctionCall_native_def Let_def)

lemma FunctionCall_postcall_void:
  assumes "FuncReturnType au func_ast False = ''void''"
  shows "FunctionCall_postcall au postcall_init catch func_ast =
           (if postcall_init = [] then [] else [I @ postcall_init])
           @ async_end func_ast
           @ (if catch then GenExceptionRaise else [])"
  using assms by (simp add: FunctionCall_postcall_def)

lemma FunctionCall_return_no_returns:
  assumes "returns func_ast = []"
  shows "FunctionCall_return Initializer typepostconversion func_ast ctxmgr optional_ret0 =
           (if ctxmgr = Some ''__enter__@'' then [I @ ''Py_INCREF(self);'', I @ ''return self;'']
            else [I @ ''Py_RETURN_NONE;''])
           @ [''}'']"
  unfolding FunctionCall_return_def Let_def
  by (simp only: assms list.size less_nat_zero_code simp_thms if_False)

text \<open>
  C4, as the code has it. Let the callable have no return value, so that its return type is
  rendered \<^verbatim>\<open>void\<close>, and let the generation end without an exception. Then the lines after the
  conversion of the arguments are the call comment, the commands before the call, the region
  that leaves the interpreter lock, the try region, the bare call (one statement, or the switch
  over the number of arguments), the catch region, the post-call command, the region that takes
  the lock again, and the raise of a caught exception: no line among them declares a local for
  a return value. The body ends with \<^verbatim>\<open>Py_RETURN_NONE\<close>, except for the name \<^verbatim>\<open>__enter__@\<close>, where
  it ends with \<^verbatim>\<open>Py_INCREF(self); return self;\<close>.
\<close>

theorem FunctionCall_no_return_values:
  assumes "returns func_ast = []"
    and "FuncReturnType au func_ast False = ''void''"
    and "FunctionCall au Initializer pyname wrapper doc catch call postcall_init
           typepostconversion func_ast lineno prepend_self = (lines, Inr ())"
  shows "\<exists>cp pre args.
           FunctionCall_ctxmgr pyname = ([], Inr cp)
         \<and> FunctionCall_convert au (snd cp) wrapper doc func_ast lineno prepend_self
             = (pre, Inr args)
         \<and> lines = pre
             @ [I @ ''// Call actual C++ method.'']
             @ (case call of CallStr s \<Rightarrow> [] | CallList ss \<Rightarrow> map (\<lambda>s. I @ s) (butlast ss))
             @ async_begin func_ast
             @ (if catch then GenExceptionTry else [])
             @ (if minargs_of func_ast < length (params func_ast)
                then switch_nargs au (case call of CallStr s \<Rightarrow> s | CallList ss \<Rightarrow> last ss) args
                       (minargs_of func_ast) (length (params func_ast))
                else [(if catch then I else []) @ I
                      @ (case call of CallStr s \<Rightarrow> s | CallList ss \<Rightarrow> last ss)
                      @ TupleStr au args @ '';''])
             @ (if catch then GenExceptionCatch else [])
             @ (if postcall_init = [] then [] else [I @ postcall_init])
             @ async_end func_ast
             @ (if catch then GenExceptionRaise else [])
             @ (if pyname = ''__enter__@'' then [I @ ''Py_INCREF(self);'', I @ ''return self;'']
                else [I @ ''Py_RETURN_NONE;''])
             @ [''}'']"
proof -
  from assms(3) obtain cp pre args l2 cmd l4 optional_ret0 where
    c: "FunctionCall_ctxmgr pyname = ([], Inr cp)"
    and i: "FunctionCall_inputs au (snd cp) wrapper doc func_ast lineno prepend_self = (pre, Inr args)"
    and cc: "FunctionCall_callcmd call = (l2, Inr cmd)"
    and r0: "FunctionCall_ret0 au catch func_ast = (l4, Inr optional_ret0)"
    and l: "lines = pre @ l2 @ async_begin func_ast @ l4
           @ FunctionCall_native au catch cmd args func_ast
           @ FunctionCall_postcall au postcall_init catch func_ast
           @ FunctionCall_return Initializer typepostconversion func_ast (fst cp) optional_ret0"
    by (rule FunctionCall_ok)
  have conv: "FunctionCall_convert au (snd cp) wrapper doc func_ast lineno prepend_self = (pre, Inr args)"
    using assms(1) i by (rule FunctionCall_inputs_no_returns)
  have l2: "l2 = (I @ ''// Call actual C++ method.'')
              # (case call of CallStr s \<Rightarrow> [] | CallList ss \<Rightarrow> map (\<lambda>s. I @ s) (butlast ss))"
    and cmd: "cmd = (case call of CallStr s \<Rightarrow> s | CallList ss \<Rightarrow> last ss)"
    using cc by (rule FunctionCall_callcmd_ok)+
  have l4: "l4 = []"
    using r0 FunctionCall_ret0_void [OF assms(2), of catch] by simp
  have enter: "(fst cp = Some ''__enter__@'') = (pyname = ''__enter__@'')"
    using c by (rule FunctionCall_ctxmgr_enter)
  have "lines = pre
             @ [I @ ''// Call actual C++ method.'']
             @ (case call of CallStr s \<Rightarrow> [] | CallList ss \<Rightarrow> map (\<lambda>s. I @ s) (butlast ss))
             @ async_begin func_ast
             @ (if catch then GenExceptionTry else [])
             @ (if minargs_of func_ast < length (params func_ast)
                then switch_nargs au (case call of CallStr s \<Rightarrow> s | CallList ss \<Rightarrow> last ss) args
                       (minargs_of func_ast) (length (params func_ast))
                else [(if catch then I else []) @ I
                      @ (case call of CallStr s \<Rightarrow> s | CallList ss \<Rightarrow> last ss)
                      @ TupleStr au args @ '';''])
             @ (if catch then GenExceptionCatch else [])
             @ (if postcall_init = [] then [] else [I @ postcall_init])
             @ async_end func_ast
             @ (if catch then GenExceptionRaise else [])
             @ (if pyname = ''__enter__@'' then [I @ ''Py_INCREF(self);'', I @ ''return self;'']
                else [I @ ''Py_RETURN_NONE;''])
             @ [''}'']"
    unfolding l l2 l4 cmd FunctionCall_native_void [OF assms(2)]
      FunctionCall_postcall_void [OF assms(2)] FunctionCall_return_no_returns [OF assms(1)] enter
    by (simp only: append_assoc append_Cons append_Nil)
  with c conv show ?thesis
    by blast
qed

theorem FunctionCall_no_return_values_witness:
  "returns (func_of [int_param ''a'' []] []) = []
   \<and> FuncReturnType sample_astutils (func_of [int_param ''a'' []] []) False = ''void''
   \<and> FunctionCall sample_astutils sample_Initializer ''f'' ''wrap_f'' ''void F(int)'' False
       (CallStr ''F'') [] Map.empty (func_of [int_param ''a'' []] []) 7 None
     = ([[],
         ''// void F(int)'',
         ''static PyObject* wrap_f(PyObject* self, PyObject* args, PyObject* kw) {'',
         ''  PyObject* a[1];'',
         ''  char* names[] = {'',
         ''      C(\"a\"),'',
         ''      nullptr'',
         ''  };'',
         ''  if (!PyArg_ParseTupleAndKeywords(args, kw, \"O:f\", names, &a[0])) return nullptr;'',
         ''  int arg1;'',
         ''  if (!Clif_PyObjAs(a[0], &arg1)) return ArgError(\"f\", names[0], \"int\", a[0]);'',
         ''  // Call actual C++ method.'',
         ''  F(std::move(arg1));'',
         ''  Py_RETURN_NONE;'',
         ''}''],
        Inr ())"
proof -
  let ?f = "func_of [int_param ''a'' []] []"
  have r: "returns ?f = []"
    by (simp add: func_of_def)
  have v: "FuncReturnType sample_astutils ?f False = ''void''"
    by (simp add: func_of_def sample_astutils_def)
  have run: "FunctionCall sample_astutils sample_Initializer ''f'' ''wrap_f'' ''void F(int)'' False
       (CallStr ''F'') [] Map.empty ?f 7 None
     = ([[],
         ''// void F(int)'',
         ''static PyObject* wrap_f(PyObject* self, PyObject* args, PyObject* kw) {'',
         ''  PyObject* a[1];'',
         ''  char* names[] = {'',
         ''      C(\"a\"),'',
         ''      nullptr'',
         ''  };'',
         ''  if (!PyArg_ParseTupleAndKeywords(args, kw, \"O:f\", names, &a[0])) return nullptr;'',
         ''  int arg1;'',
         ''  if (!Clif_PyObjAs(a[0], &arg1)) return ArgError(\"f\", names[0], \"int\", a[0]);'',
         ''  // Call actual C++ method.'',
         ''  F(std::move(arg1));'',
         ''  Py_RETURN_NONE;'',
         ''}''],
        Inr ())"
    by (simp add: run_defs)
  from FunctionCall_no_return_values [OF r v run] show ?thesis
  proof (elim exE)
    from r v run show ?thesis
      by (simp only: simp_thms)
  qed
qed

text \<open>
  C4 as stated fails on the wrapper of \<^verbatim>\<open>__enter__@\<close> for a callable without return values: its body ends by
  returning \<^verbatim>\<open>self\<close>, and no line of it produces \<^verbatim>\<open>None\<close>.
\<close>

theorem FunctionCall_enter_returns_self:
  "returns (func_of [] []) = []
   \<and> FunctionCall sample_astutils sample_Initializer ''__enter__@'' ''wrap_enter'' ''void F()'' False
       (CallStr ''F'') [] Map.empty (func_of [] []) 7 None
     = ([[],
         ''// void F()'',
         ''static PyObject* wrap_enter(PyObject* self) {'',
         ''  // Call actual C++ method.'',
         ''  F();'',
         ''  Py_INCREF(self);'',
         ''  return self;'',
         ''}''],
        Inr ())"
  by (simp add: run_defs)

section \<open>Optional parameters\<close>







end
